theory Spec2Isabelle
  imports Complex_Main "HOL-Library.Multiset" "HOL-Library.Char_ord" "HOL-Library.List_Lexorder"
begin

section \<open>Python strings and dictionaries\<close>

text \<open>
  A Python \<open>str\<close> is a sequence of code points. The model covers the code points below 256:
  a \<^typ>\<open>char\<close> stands for the code point of the same number, so \<open>CHR 0xB2\<close> is
  SUPERSCRIPT TWO. The character classes below are those of \<open>str.isspace\<close>,
  \<open>str.isnumeric\<close> and of the decimal digits, restricted to that range.
\<close>

definition isspace_char :: "char \<Rightarrow> bool" where
  "isspace_char c = (c \<in> set [CHR 0x09, CHR 0x0A, CHR 0x0B, CHR 0x0C, CHR 0x0D,
     CHR 0x1C, CHR 0x1D, CHR 0x1E, CHR 0x1F, CHR 0x20, CHR 0x85, CHR 0xA0])"

definition isdecimal_char :: "char \<Rightarrow> bool" where
  "isdecimal_char c = (c \<in> set ''0123456789'')"

definition isnumeric_char :: "char \<Rightarrow> bool" where
  "isnumeric_char c = (isdecimal_char c \<or>
     c \<in> set [CHR 0xB2, CHR 0xB3, CHR 0xB9, CHR 0xBC, CHR 0xBD, CHR 0xBE])"

definition isnumeric :: "string \<Rightarrow> bool" where
  "isnumeric s = (s \<noteq> [] \<and> list_all isnumeric_char s)"

definition isdecimal :: "string \<Rightarrow> bool" where
  "isdecimal s = (s \<noteq> [] \<and> list_all isdecimal_char s)"

definition strip :: "string \<Rightarrow> string" where
  "strip s = rev (dropWhile isspace_char (rev (dropWhile isspace_char s)))"

definition startswith :: "string \<Rightarrow> string \<Rightarrow> bool" where
  "startswith s p = (take (length p) s = p)"

definition endswith :: "string \<Rightarrow> string \<Rightarrow> bool" where
  "endswith s p = (length p \<le> length s \<and> drop (length s - length p) s = p)"

text \<open>\<open>s.split(sep)\<close> for a one-character separator: never empty, keeps empty fields.\<close>

fun split :: "string \<Rightarrow> char \<Rightarrow> string list" where
  "split [] sep = [[]]"
| "split (x # xs) sep =
     (if x = sep then [] # split xs sep
      else (case split xs sep of [] \<Rightarrow> [[x]] | w # ws \<Rightarrow> (x # w) # ws))"

text \<open>\<open>s.replace(old, new)\<close>: non-overlapping occurrences, left to right.\<close>

function replace :: "string \<Rightarrow> string \<Rightarrow> string \<Rightarrow> string" where
  "replace s old new =
     (if old = [] then new @ concat (map (\<lambda>c. c # new) s)
      else if s = [] then []
      else if startswith s old then new @ replace (drop (length old) s) old new
      else hd s # replace (tl s) old new)"
  by pat_completeness auto
termination
  by (relation "measure (\<lambda>(s, old, new). length s)") auto

text \<open>\<open>sep.join(parts)\<close>.\<close>

fun join :: "string \<Rightarrow> string list \<Rightarrow> string" where
  "join sep [] = []"
| "join sep [p] = p"
| "join sep (p # q # ps) = p @ sep @ join sep (q # ps)"

text \<open>\<open>dict(pairs)\<close>: a later pair overwrites an earlier one with the same key.\<close>

definition dict :: "('k \<times> 'v) list \<Rightarrow> ('k \<rightharpoonup> 'v)" where
  "dict kvs = foldl (\<lambda>m (k, v). m(k \<mapsto> v)) Map.empty kvs"

text \<open>\<open>d.get(key, default)\<close>.\<close>

definition get :: "('k \<rightharpoonup> 'v) \<Rightarrow> 'k \<Rightarrow> 'v \<Rightarrow> 'v" where
  "get d k dflt = (case d k of None \<Rightarrow> dflt | Some v \<Rightarrow> v)"

text \<open>\<open>os.path.basename\<close> and \<open>os.path.join\<close> (POSIX).\<close>

definition basename :: "string \<Rightarrow> string" where
  "basename p = rev (takeWhile (\<lambda>c. c \<noteq> CHR ''/'') (rev p))"

definition path_join :: "string \<Rightarrow> string \<Rightarrow> string" where
  "path_join a b =
     (if startswith b ''/'' then b
      else if a = [] \<or> endswith a ''/'' then a @ b
      else a @ ''/'' @ b)"

section \<open>Tables\<close>

text \<open>
  A cell of a data frame: a string, an integer, or the missing value. The frame is its list of
  column names and its rows in order; a row carries a value for every column the programs read
  (the value of a column that is not in \<open>columns\<close> is never read by a call that returns).
  A row-wise \<open>apply\<close> is the map of its function over the rows when there are rows; on a
  frame without rows it returns a copy of the frame. The sample of a row is a string, as the
  extractor writes it.
\<close>

datatype cell = Str string | Num int | NA

record row =
  sample :: string
  tmp_id :: cell
  tumor_allele_a :: cell
  tumor_allele_b :: cell
  normal_allele_a :: cell
  normal_allele_b :: cell
  end_col :: cell
  period :: cell
  ref :: cell
  motif :: cell
  RU :: cell

record frame =
  columns :: "string list"
  data :: "row list"

datatype error =
    ValueError_samples "string list"
  | ValueError_sample_columns string
  | TypeError_index
  | OSError
  | ValueError_missing "string list"
  | ValueError_motif
  | ValueError_ru
  | ValueError_key_length

section \<open>extract.py\<close>

definition parse_info :: "string \<Rightarrow> (string \<rightharpoonup> string)" where
  "parse_info info_field =
     foldl (\<lambda>info item.
              if CHR ''='' \<in> set item
              then info(takeWhile (\<lambda>c. c \<noteq> CHR ''='') item \<mapsto>
                        tl (dropWhile (\<lambda>c. c \<noteq> CHR ''='') item))
              else info)
           Map.empty (split info_field (CHR '';''))"

definition parse_repcn :: "string \<Rightarrow> string \<times> string" where
  "parse_repcn repcn_str =
     (let parts = split repcn_str (CHR '','') in
      if length parts = 2 then (parts ! 0, parts ! 1)
      else if length parts = 1 then (parts ! 0, parts ! 0)
      else (''.'', ''.''))"

definition get_repcn :: "string list \<Rightarrow> string \<Rightarrow> string \<times> string" where
  "get_repcn format_fields sample_str =
     (let values = split sample_str (CHR '':'');
          fmt = dict (zip format_fields values)
      in parse_repcn (get fmt ''REPCN'' ''.,.''))"

text \<open>The local variables of \<open>process_vcf_to_rows\<close> that live across the lines of the file.\<close>

record scan_state =
  rows :: "row list"
  filter_not_passed_count :: nat
  written_variants :: nat
  header_cols :: "string list option"
  normal_idx :: "nat option"
  tumor_idx :: "nat option"
  format_fields :: "string list option"

definition init_state :: scan_state where
  "init_state = \<lparr>rows = [], filter_not_passed_count = 0, written_variants = 0,
     header_cols = None, normal_idx = None, tumor_idx = None, format_fields = None\<rparr>"

text \<open>
  \<open>cols[idx]\<close> inside \<open>try ... except IndexError: raise ValueError\<close>: an index that is still
  \<open>None\<close> is a \<open>TypeError\<close>, which that handler does not catch.
\<close>

definition sample_column :: "string \<Rightarrow> string list \<Rightarrow> nat option \<Rightarrow> error + string" where
  "sample_column path cols idx =
     (case idx of
        None \<Rightarrow> Inl TypeError_index
      | Some i \<Rightarrow> if i < length cols then Inr (cols ! i)
                  else Inl (ValueError_sample_columns path))"

definition sample_name :: "string \<Rightarrow> string" where
  "sample_name path = replace (replace (basename path) ''.vcf'' []) ''.vcf.gz'' []"

text \<open>One iteration of \<open>for line in f\<close>.\<close>

definition process_line :: "string \<Rightarrow> scan_state \<Rightarrow> string \<Rightarrow> error + scan_state" where
  "process_line path st line =
     (if startswith line ''#CHROM'' then
        (let hdr = split (strip line) (CHR 0x09);
             sample_cols = drop 9 hdr
         in if length sample_cols < 2 then Inl (ValueError_samples sample_cols)
            else Inr (st\<lparr>header_cols := Some hdr, normal_idx := Some 9, tumor_idx := Some 10\<rparr>))
      else if startswith line ''#'' then Inr st
      else
        (let cols = split (strip line) (CHR 0x09) in
         if length cols < 10 then Inr st
         else if cols ! 6 \<noteq> ''PASS''
         then Inr (st\<lparr>filter_not_passed_count := filter_not_passed_count st + 1\<rparr>)
         else
           (let info = parse_info (cols ! 7) in
            if get info ''PERFECT'' [] = ''FALSE'' then Inr st
            else
              (let ff = (case format_fields st of None \<Rightarrow> split (cols ! 8) (CHR '':'')
                         | Some f \<Rightarrow> f);
                   st1 = st\<lparr>format_fields := Some ff\<rparr>
               in case sample_column path cols (normal_idx st) of
                    Inl e \<Rightarrow> Inl e
                  | Inr normal_sample \<Rightarrow>
                 (case sample_column path cols (tumor_idx st) of
                    Inl e \<Rightarrow> Inl e
                  | Inr tumor_sample \<Rightarrow>
                 (let n = get_repcn ff normal_sample;
                      t = get_repcn ff tumor_sample
                  in if \<not> (isnumeric (fst n) \<and> isnumeric (snd n) \<and>
                            isnumeric (fst t) \<and> isnumeric (snd t))
                     then Inr st1
                     else Inr (st1\<lparr>
                       written_variants := written_variants st + 1,
                       rows := rows st @
                         [\<lparr>sample = sample_name path,
                           tmp_id = Str (cols ! 0 @ ''_'' @ cols ! 1),
                           tumor_allele_a = Str (fst t),
                           tumor_allele_b = Str (snd t),
                           normal_allele_a = Str (fst n),
                           normal_allele_b = Str (snd n),
                           end_col = Str (get info ''END'' []),
                           period = Str (get info ''PERIOD'' []),
                           ref = Str (get info ''REF'' []),
                           motif = Str (get info ''RU'' []),
                           RU = NA\<rparr>]\<rparr>)))))))"

text \<open>
  What iterating over the opened file yields: its lines (each with its line end), or a failure
  of the read (the file cannot be opened, decompressed or decoded), which raises.
\<close>

datatype line_read = Line string | ReadFailure

fun scan :: "string \<Rightarrow> scan_state \<Rightarrow> line_read list \<Rightarrow> error + scan_state" where
  "scan path st [] = Inr st"
| "scan path st (ReadFailure # rest) = Inl OSError"
| "scan path st (Line l # rest) =
     (case process_line path st l of
        Inl e \<Rightarrow> Inl e
      | Inr st' \<Rightarrow> scan path st' rest)"

text \<open>
  The ratio printed after the file, as an exact rational (the source computes it in floating
  point and prints two decimals); \<open>None\<close> when nothing is computed or printed.
\<close>

definition filter_not_passed_pt :: "nat \<Rightarrow> nat \<Rightarrow> rat option" where
  "filter_not_passed_pt written filtered =
     (let denom = written + filtered in
      if denom > 0 then Some (of_nat filtered / of_nat denom * 100) else None)"

definition process_vcf_to_rows :: "string \<Rightarrow> line_read list \<Rightarrow> error + (row list \<times> rat option)" where
  "process_vcf_to_rows path f =
     (case scan path init_state f of
        Inl e \<Rightarrow> Inl e
      | Inr st \<Rightarrow>
          Inr (rows st, filter_not_passed_pt (written_variants st) (filter_not_passed_count st)))"

text \<open>What \<open>parse_vcf_files\<close> prints.\<close>

datatype message =
    Processing string
  | Skipped_filter string "rat"
  | Skipping string error

definition std_columns :: "string list" where
  "std_columns = [''sample'', ''tmp_id'', ''tumor_allele_a'', ''tumor_allele_b'',
     ''normal_allele_a'', ''normal_allele_b'', ''end'', ''period'', ''ref'', ''motif'']"

text \<open>
  One iteration of \<open>for file in os.listdir(input_dir)\<close>; the directory is given as the list of
  its entries, each with what reading it yields.
\<close>

definition parse_file ::
  "string \<Rightarrow> row list \<times> message list \<Rightarrow> string \<times> line_read list \<Rightarrow> row list \<times> message list" where
  "parse_file input_dir acc entry =
     (let file = fst entry; all_rows = fst acc; out = snd acc in
      if endswith file ''.vcf'' \<or> endswith file ''.vcf.gz'' then
        (case process_vcf_to_rows (path_join input_dir file) (snd entry) of
           Inr (rs, pt) \<Rightarrow>
             (all_rows @ rs,
              out @ [Processing file] @
                (case pt of None \<Rightarrow> [] | Some p \<Rightarrow> [Skipped_filter file p]))
         | Inl e \<Rightarrow> (all_rows, out @ [Processing file, Skipping file e]))
      else acc)"

definition parse_vcf_files ::
  "string \<Rightarrow> (string \<times> line_read list) list \<Rightarrow> frame \<times> message list" where
  "parse_vcf_files input_dir listing =
     (let r = foldl (parse_file input_dir) ([], []) listing
      in (\<lparr>columns = std_columns, data = fst r\<rparr>, snd r))"

section \<open>matrix\_builder.py\<close>

text \<open>
  \<open>int(s)\<close> on a string: white space around the number is ignored, one sign is allowed, and
  single underscores may separate digits. White space is what the integer parser skips, which
  leaves out the separators \<open>0x1C\<close> to \<open>0x1F\<close> that \<open>str.strip\<close> removes.
\<close>

definition int_space_char :: "char \<Rightarrow> bool" where
  "int_space_char c = (c \<in> set [CHR 0x09, CHR 0x0A, CHR 0x0B, CHR 0x0C, CHR 0x0D,
     CHR 0x20, CHR 0x85, CHR 0xA0])"

fun no_double_underscore :: "string \<Rightarrow> bool" where
  "no_double_underscore (x # y # r) =
     (\<not> (x = CHR ''_'' \<and> y = CHR ''_'') \<and> no_double_underscore (y # r))"
| "no_double_underscore r = True"

definition valid_digits :: "string \<Rightarrow> bool" where
  "valid_digits s =
     (s \<noteq> [] \<and> isdecimal_char (hd s) \<and> isdecimal_char (last s) \<and>
      list_all (\<lambda>c. isdecimal_char c \<or> c = CHR ''_'') s \<and> no_double_underscore s)"

definition digit_value :: "char \<Rightarrow> int" where
  "digit_value c = int (of_char c) - 48"

definition py_int :: "string \<Rightarrow> int option" where
  "py_int s =
     (let t = rev (dropWhile int_space_char (rev (dropWhile int_space_char s)));
          neg = (t \<noteq> [] \<and> hd t = CHR ''-'');
          body = (if t \<noteq> [] \<and> (hd t = CHR ''-'' \<or> hd t = CHR ''+'') then tl t else t)
      in if valid_digits body
         then Some ((if neg then - 1 else 1) *
                    foldl (\<lambda>a c. 10 * a + digit_value c) 0 (filter (\<lambda>c. c \<noteq> CHR ''_'') body))
         else None)"

text \<open>\<open>int(v)\<close> on a cell; \<open>None\<close> when it raises.\<close>

definition int_cell :: "cell \<Rightarrow> int option" where
  "int_cell v = (case v of Str s \<Rightarrow> py_int s | Num n \<Rightarrow> Some n | NA \<Rightarrow> None)"

text \<open>\<open>str(n)\<close> on integers and \<open>str(v)\<close> on a cell.\<close>

fun str_nat :: "nat \<Rightarrow> string" where
  "str_nat n =
     (if n < 10 then [char_of (48 + n)]
      else str_nat (n div 10) @ [char_of (48 + n mod 10)])"

declare str_nat.simps [simp del]

definition str_int :: "int \<Rightarrow> string" where
  "str_int i = (if i < 0 then CHR ''-'' # str_nat (nat (- i)) else str_nat (nat i))"

definition str_cell :: "cell \<Rightarrow> string" where
  "str_cell v = (case v of Str s \<Rightarrow> s | Num n \<Rightarrow> str_int n | NA \<Rightarrow> ''<NA>'')"

definition isna :: "cell \<Rightarrow> bool" where
  "isna v = (case v of NA \<Rightarrow> True | Str s \<Rightarrow> False | Num n \<Rightarrow> False)"

text \<open>The four derived columns of a row; \<open>None\<close> is \<open>pd.NA\<close>.\<close>

record allele_changes =
  change_a :: "int option"
  change_b :: "int option"
  ref_a :: "int option"
  ref_b :: "int option"

definition compute_allele_changes :: "row \<Rightarrow> allele_changes" where
  "compute_allele_changes r =
     (case (int_cell (tumor_allele_a r), int_cell (tumor_allele_b r),
            int_cell (normal_allele_a r), int_cell (normal_allele_b r)) of
        (Some ta, Some tb, Some na, Some nb) \<Rightarrow>
          (let tumor = sort [ta, tb]; normal = sort [na, nb] in
           \<lparr>change_a = Some (tumor ! 0 - normal ! 0),
            change_b = Some (tumor ! 1 - normal ! 1),
            ref_a = Some (normal ! 0),
            ref_b = Some (normal ! 1)\<rparr>)
      | _ \<Rightarrow> \<lparr>change_a = None, change_b = None, ref_a = None, ref_b = None\<rparr>)"

text \<open>
  The blocks of \<open>make_feature\<close> that append to \<open>parts\<close>, and the function itself. Its
  early returns are tested first, in the order of the source; the appends in between do not affect
  them.
\<close>

definition motif_parts :: "string option \<Rightarrow> cell \<Rightarrow> string list" where
  "motif_parts ru m =
     (if ru = Some ''length'' then [''LEN'' @ str_nat (length (str_cell m))]
      else if ru = Some ''ru'' then [str_cell m]
      else [])"

definition delta_part :: "int \<Rightarrow> string" where
  "delta_part d = (if d > 0 then ''+'' else []) @ str_int d"

definition make_feature ::
  "string option \<Rightarrow> bool \<Rightarrow> bool \<Rightarrow> cell \<Rightarrow> int option \<Rightarrow> int option \<Rightarrow> string option" where
  "make_feature ru ref_length change m refv delta =
     (if isna m then None
      else if ref_length \<and> refv = None then None
      else if change \<and> (delta = None \<or> delta = Some 0) then None
      else
        (let parts = motif_parts ru m
                     @ (if ref_length then [str_int (the refv)] else [])
                     @ (if change then [delta_part (the delta)] else [])
         in if parts = [] then None else Some (join ''_'' parts)))"

text \<open>
  The count matrix: row labels, column labels, and one list of counts per row label.
  \<open>pd.DataFrame()\<close> is the matrix with no rows and no columns.
\<close>

record matrix =
  mat_index :: "string list"
  mat_columns :: "string list"
  mat_values :: "nat list list"

definition empty_matrix :: matrix where
  "empty_matrix = \<lparr>mat_index = [], mat_columns = [], mat_values = []\<rparr>"

definition required_cols :: "string list" where
  "required_cols = [''sample'', ''normal_allele_a'', ''normal_allele_b'',
     ''tumor_allele_a'', ''tumor_allele_b'']"

definition motif_col :: "string list \<Rightarrow> row \<Rightarrow> cell" where
  "motif_col cols r = (if ''motif'' \<in> set cols then motif r else RU r)"

text \<open>
  The long table after \<open>melt\<close> and \<open>dropna\<close>: the labelled slot-A events of all rows, then the
  labelled slot-B events of all rows, each with its sample.
\<close>

definition mutation_type_a ::
  "string option \<Rightarrow> bool \<Rightarrow> bool \<Rightarrow> (row \<Rightarrow> cell) \<Rightarrow> row \<Rightarrow> string option" where
  "mutation_type_a ru ref_length change mc r =
     (let c = compute_allele_changes r
      in make_feature ru ref_length change (mc r) (ref_a c) (change_a c))"

definition mutation_type_b ::
  "string option \<Rightarrow> bool \<Rightarrow> bool \<Rightarrow> (row \<Rightarrow> cell) \<Rightarrow> row \<Rightarrow> string option" where
  "mutation_type_b ru ref_length change mc r =
     (let c = compute_allele_changes r
      in make_feature ru ref_length change (mc r) (ref_b c) (change_b c))"

definition dropna :: "(string \<times> string option) list \<Rightarrow> (string \<times> string) list" where
  "dropna xs = concat (map (\<lambda>(s, t). case t of None \<Rightarrow> [] | Some l \<Rightarrow> [(s, l)]) xs)"

definition df_long ::
  "string option \<Rightarrow> bool \<Rightarrow> bool \<Rightarrow> (row \<Rightarrow> cell) \<Rightarrow> row list \<Rightarrow> (string \<times> string) list" where
  "df_long ru ref_length change mc rs =
     dropna (map (\<lambda>r. (sample r, mutation_type_a ru ref_length change mc r)) rs
             @ map (\<lambda>r. (sample r, mutation_type_b ru ref_length change mc r)) rs)"

text \<open>\<open>groupby([sample, mutation_type]).size().unstack(fill_value=0)\<close>, sorted on both axes.\<close>

definition mutation_counts :: "(string \<times> string) list \<Rightarrow> matrix" where
  "mutation_counts ev =
     (let idx = sort (remdups (map fst ev));
          cols = sort (remdups (map snd ev))
      in \<lparr>mat_index = idx, mat_columns = cols,
          mat_values = map (\<lambda>s. map (\<lambda>l. count_list ev (s, l)) cols) idx\<rparr>)"

text \<open>
  After the validation, the four derived columns are assigned from the row-wise \<open>apply\<close>. On a
  table without rows \<open>apply\<close> gives back the frame with all its columns, and assigning that to
  four columns raises \<open>ValueError\<close> (columns must be same length as key).
\<close>

definition build_mutation_matrix ::
  "string option \<Rightarrow> bool \<Rightarrow> bool \<Rightarrow> frame \<Rightarrow> error + matrix" where
  "build_mutation_matrix ru ref_length change mutations_data =
     (let missing = filter (\<lambda>c. c \<notin> set (columns mutations_data)) required_cols in
      if missing \<noteq> [] then Inl (ValueError_missing missing)
      else if ''motif'' \<notin> set (columns mutations_data) \<and> ''RU'' \<notin> set (columns mutations_data)
      then Inl ValueError_motif
      else if ru \<notin> {None, Some ''length'', Some ''ru''} then Inl ValueError_ru
      else if data mutations_data = [] then Inl ValueError_key_length
      else
        (let ev = df_long ru ref_length change (motif_col (columns mutations_data))
                    (data mutations_data)
         in if ev = [] then Inr empty_matrix else Inr (mutation_counts ev)))"

section \<open>Notions used to state the properties\<close>

text \<open>The lines that a successful read of the file yielded.\<close>

definition lines_of :: "line_read list \<Rightarrow> string list" where
  "lines_of f = concat (map (\<lambda>x. case x of Line l \<Rightarrow> [l] | ReadFailure \<Rightarrow> []) f)"

text \<open>A data line counted as rejected by FILTER, and a data line that gets as far as the
  FORMAT step (at least ten columns, FILTER is PASS, not marked \<open>PERFECT=FALSE\<close>).\<close>

definition filter_rejected :: "string \<Rightarrow> bool" where
  "filter_rejected line =
     (\<not> startswith line ''#'' \<and>
      (let cols = split (strip line) (CHR 0x09) in
       10 \<le> length cols \<and> cols ! 6 \<noteq> ''PASS''))"

definition reaches_format :: "string \<Rightarrow> bool" where
  "reaches_format line =
     (\<not> startswith line ''#'' \<and>
      (let cols = split (strip line) (CHR 0x09) in
       10 \<le> length cols \<and> cols ! 6 = ''PASS'' \<and>
       get (parse_info (cols ! 7)) ''PERFECT'' [] \<noteq> ''FALSE''))"

definition format_column :: "string \<Rightarrow> string list" where
  "format_column line = split (split (strip line) (CHR 0x09) ! 8) (CHR '':'')"

definition first_format :: "string list \<Rightarrow> string list option" where
  "first_format ls =
     (case filter reaches_format ls of [] \<Rightarrow> None | l # _ \<Rightarrow> Some (format_column l))"

text \<open>The ordering as the specification words it: the ninth column of the first line that is
  not a header or comment line.\<close>

definition spec_first_data_line_format :: "string list \<Rightarrow> string list option" where
  "spec_first_data_line_format ls =
     (case filter (\<lambda>l. \<not> startswith l ''#'') ls of
        [] \<Rightarrow> None
      | l # _ \<Rightarrow> Some (format_column l))"

definition cell_isnumeric :: "cell \<Rightarrow> bool" where
  "cell_isnumeric c = (case c of Str s \<Rightarrow> isnumeric s | Num n \<Rightarrow> False | NA \<Rightarrow> False)"

definition cell_isdecimal :: "cell \<Rightarrow> bool" where
  "cell_isdecimal c = (case c of Str s \<Rightarrow> isdecimal s | Num n \<Rightarrow> False | NA \<Rightarrow> False)"

definition numeric_alleles :: "row \<Rightarrow> bool" where
  "numeric_alleles r =
     (cell_isnumeric (tumor_allele_a r) \<and> cell_isnumeric (tumor_allele_b r) \<and>
      cell_isnumeric (normal_allele_a r) \<and> cell_isnumeric (normal_allele_b r))"

definition decimal_alleles :: "row \<Rightarrow> bool" where
  "decimal_alleles r =
     (cell_isdecimal (tumor_allele_a r) \<and> cell_isdecimal (tumor_allele_b r) \<and>
      cell_isdecimal (normal_allele_a r) \<and> cell_isdecimal (normal_allele_b r))"

text \<open>Row \<open>r\<close> carries the allele values that line \<open>line\<close> gives when its sample columns
  are read with the FORMAT ordering \<open>ff\<close>.\<close>

definition read_with :: "string list \<Rightarrow> string \<Rightarrow> row \<Rightarrow> bool" where
  "read_with ff line r =
     (let cols = split (strip line) (CHR 0x09) in
      list_ex (\<lambda>ns. normal_allele_a r = Str (fst (get_repcn ff ns)) \<and>
                     normal_allele_b r = Str (snd (get_repcn ff ns))) cols \<and>
      list_ex (\<lambda>ts. tumor_allele_a r = Str (fst (get_repcn ff ts)) \<and>
                     tumor_allele_b r = Str (snd (get_repcn ff ts))) cols)"

text \<open>What one directory entry adds to the table.\<close>

definition file_rows :: "string \<Rightarrow> string \<times> line_read list \<Rightarrow> row list" where
  "file_rows input_dir entry = fst (parse_file input_dir ([], []) entry)"

subsection \<open>Example inputs\<close>

definition vcf_line :: "string list \<Rightarrow> string" where
  "vcf_line cols = join [CHR 0x09] cols @ [CHR 0x0A]"

definition ex_header :: string where
  "ex_header = vcf_line [''#CHROM'', ''POS'', ''ID'', ''REF'', ''ALT'', ''QUAL'', ''FILTER'',
     ''INFO'', ''FORMAT'', ''N'', ''T'']"

definition ex_lowq :: string where
  "ex_lowq = vcf_line [''chr1'', ''100'', ''.'', ''A'', ''.'', ''.'', ''LowQ'',
     ''END=110;RU=AT;REF=5'', ''GT:REPCN'', ''0/1:5,6'', ''0/1:5,7'']"

definition ex_pass :: string where
  "ex_pass = vcf_line [''chr1'', ''200'', ''.'', ''A'', ''.'', ''.'', ''PASS'',
     ''END=210;RU=AT;REF=5'', ''REPCN:GT'', ''5,6:0/1'', ''5,7:0/1'']"

definition ex_superscript :: string where
  "ex_superscript = vcf_line [''chr1'', ''300'', ''.'', ''A'', ''.'', ''.'', ''PASS'',
     ''RU=A'', ''REPCN'', [CHR 0xB2], ''7'']"

definition ex_one_sample :: string where
  "ex_one_sample = vcf_line [''chr1'', ''400'', ''.'', ''A'', ''.'', ''.'', ''PASS'',
     ''RU=A'', ''REPCN'', ''7'']"

definition ex_row :: row where
  "ex_row = \<lparr>sample = ''x'', tmp_id = Str ''chr1_200'',
     tumor_allele_a = Str ''5'', tumor_allele_b = Str ''7'',
     normal_allele_a = Str ''5'', normal_allele_b = Str ''6'',
     end_col = Str ''210'', period = Str [], ref = Str ''5'', motif = Str ''AT'', RU = NA\<rparr>"

definition ex_superscript_row :: row where
  "ex_superscript_row = \<lparr>sample = ''x'', tmp_id = Str ''chr1_300'',
     tumor_allele_a = Str ''7'', tumor_allele_b = Str ''7'',
     normal_allele_a = Str [CHR 0xB2], normal_allele_b = Str [CHR 0xB2],
     end_col = Str [], period = Str [], ref = Str [], motif = Str ''A'', RU = NA\<rparr>"

definition ex_other_format :: string where
  "ex_other_format = vcf_line [''chr1'', ''500'', ''.'', ''A'', ''.'', ''.'', ''PASS'',
     ''END=510;RU=AT;REF=5'', ''GT:REPCN'', ''5,6:0/1'', ''5,8:0/1'']"

definition ex_other_row :: row where
  "ex_other_row = \<lparr>sample = ''x'', tmp_id = Str ''chr1_500'',
     tumor_allele_a = Str ''5'', tumor_allele_b = Str ''8'',
     normal_allele_a = Str ''5'', normal_allele_b = Str ''6'',
     end_col = Str ''510'', period = Str [], ref = Str ''5'', motif = Str ''AT'', RU = NA\<rparr>"

definition ex_missing_tumor :: string where
  "ex_missing_tumor = vcf_line [''chr1'', ''250'', ''.'', ''A'', ''.'', ''.'', ''PASS'',
     ''END=260;RU=AT;REF=5'', ''REPCN:GT'', ''5,6:0/1'', ''.:0/1'']"

text \<open>The count that a matrix holds for a sample and a label; 0 where it has no such row or
  column.\<close>

definition index_of :: "'a \<Rightarrow> 'a list \<Rightarrow> nat" where
  "index_of x xs = length (takeWhile (\<lambda>y. y \<noteq> x) xs)"

definition cell_count :: "matrix \<Rightarrow> string \<Rightarrow> string \<Rightarrow> nat" where
  "cell_count m s l =
     (if s \<in> set (mat_index m) \<and> l \<in> set (mat_columns m)
      then mat_values m ! index_of s (mat_index m) ! index_of l (mat_columns m)
      else 0)"

text \<open>The frame has the columns that \<open>build_mutation_matrix\<close> requires.\<close>

definition valid_columns :: "string list \<Rightarrow> bool" where
  "valid_columns cols =
     (list_all (\<lambda>c. c \<in> set cols) required_cols \<and> (''motif'' \<in> set cols \<or> ''RU'' \<in> set cols))"

text \<open>The record of the concrete scenario (motif AT, normal alleles 8 and 10, tumor alleles 8
  and 11) for a sample \<open>s\<close>; a record whose tumor and normal pairs agree after sorting; and a
  record whose motif is missing.\<close>

definition scenario_row :: "string \<Rightarrow> row" where
  "scenario_row s = \<lparr>sample = s, tmp_id = Str ''chr1_1'',
     tumor_allele_a = Str ''8'', tumor_allele_b = Str ''11'',
     normal_allele_a = Str ''8'', normal_allele_b = Str ''10'',
     end_col = Str [], period = Str [], ref = Str [], motif = Str ''AT'', RU = NA\<rparr>"

definition same_pair_row :: row where
  "same_pair_row = \<lparr>sample = ''s1'', tmp_id = Str ''chr1_2'',
     tumor_allele_a = Str ''12'', tumor_allele_b = Str ''10'',
     normal_allele_a = Str ''10'', normal_allele_b = Str ''12'',
     end_col = Str [], period = Str [], ref = Str [], motif = Str ''A'', RU = NA\<rparr>"

definition na_motif_row :: row where
  "na_motif_row = \<lparr>sample = ''s2'', tmp_id = Str ''chr1_3'',
     tumor_allele_a = Num 9, tumor_allele_b = Num 11,
     normal_allele_a = Num 8, normal_allele_b = Num 10,
     end_col = NA, period = NA, ref = NA, motif = NA, RU = NA\<rparr>"

section \<open>The scan of one file\<close>

lemma startswith_CHROM: "startswith line ''#CHROM'' \<Longrightarrow> startswith line ''#''"
  by (cases line) (auto simp: startswith_def)

lemma process_line_count:
  "process_line path st line = Inr st' \<Longrightarrow>
   filter_not_passed_count st' = filter_not_passed_count st + (if filter_rejected line then 1 else 0)"
  by (auto simp: process_line_def filter_rejected_def Let_def dest: startswith_CHROM
      split: if_splits sum.splits)

lemma process_line_written:
  "process_line path st line = Inr st' \<Longrightarrow> written_variants st = length (rows st) \<Longrightarrow>
   written_variants st' = length (rows st')"
  by (auto simp: process_line_def Let_def split: if_splits sum.splits)

lemma process_line_rows:
  "process_line path st line = Inr st' \<Longrightarrow>
   rows st' = rows st \<or> (\<exists>r. rows st' = rows st @ [r] \<and> numeric_alleles r)"
  by (auto simp: process_line_def Let_def numeric_alleles_def cell_isnumeric_def split: if_splits sum.splits)

lemma process_line_format:
  "process_line path st line = Inr st' \<Longrightarrow>
   format_fields st' = (case format_fields st of Some ff \<Rightarrow> Some ff
      | None \<Rightarrow> if reaches_format line then Some (format_column line) else None)"
  by (auto simp: process_line_def Let_def reaches_format_def format_column_def dest: startswith_CHROM
       split: if_splits sum.splits option.splits)

lemma scan_count:
  "scan path st f = Inr st' \<Longrightarrow>
   filter_not_passed_count st' =
     filter_not_passed_count st + length (filter filter_rejected (lines_of f))"
proof (induction path st f rule: scan.induct)
  case (1 path st)
  then show ?case by (simp add: lines_of_def)
next
  case (2 path st rest)
  then show ?case by simp
next
  case (3 path st l rest)
  from "3.prems" obtain st1 where s1: "process_line path st l = Inr st1"
    and s2: "scan path st1 rest = Inr st'"
    by (auto split: sum.splits)
  from "3.IH"[OF s1 s2] process_line_count[OF s1] show ?case
    by (simp add: lines_of_def)
qed

lemma scan_written:
  "scan path st f = Inr st' \<Longrightarrow> written_variants st = length (rows st) \<Longrightarrow>
   written_variants st' = length (rows st')"
proof (induction path st f rule: scan.induct)
  case (3 path st l rest)
  from "3.prems" obtain st1 where s1: "process_line path st l = Inr st1"
    and s2: "scan path st1 rest = Inr st'"
    by (auto split: sum.splits)
  from "3.IH"[OF s1 s2] process_line_written[OF s1] "3.prems"(2) show ?case by simp
qed simp_all

lemma scan_rows:
  "scan path st f = Inr st' \<Longrightarrow> list_all numeric_alleles (rows st) \<Longrightarrow>
   list_all numeric_alleles (rows st')"
proof (induction path st f rule: scan.induct)
  case (3 path st l rest)
  from "3.prems" obtain st1 where s1: "process_line path st l = Inr st1"
    and s2: "scan path st1 rest = Inr st'"
    by (auto split: sum.splits)
  from process_line_rows[OF s1] "3.prems"(2) have "list_all numeric_alleles (rows st1)"
    by auto
  from "3.IH"[OF s1 s2 this] show ?case .
qed simp_all

lemma scan_format:
  "scan path st f = Inr st' \<Longrightarrow>
   format_fields st' = (case format_fields st of Some ff \<Rightarrow> Some ff
      | None \<Rightarrow> first_format (lines_of f))"
proof (induction path st f rule: scan.induct)
  case (1 path st)
  then show ?case by (simp add: lines_of_def first_format_def split: option.splits)
next
  case (2 path st rest)
  then show ?case by simp
next
  case (3 path st l rest)
  from "3.prems" obtain st1 where s1: "process_line path st l = Inr st1"
    and s2: "scan path st1 rest = Inr st'"
    by (auto split: sum.splits)
  from "3.IH"[OF s1 s2] process_line_format[OF s1] show ?case
    by (auto simp: lines_of_def first_format_def split: option.splits if_splits)
qed

lemma read_withI:
  assumes "i < length (split (strip line) (CHR 0x09))"
    and "j < length (split (strip line) (CHR 0x09))"
    and "normal_allele_a r = Str (fst (get_repcn ff (split (strip line) (CHR 0x09) ! i)))"
    and "normal_allele_b r = Str (snd (get_repcn ff (split (strip line) (CHR 0x09) ! i)))"
    and "tumor_allele_a r = Str (fst (get_repcn ff (split (strip line) (CHR 0x09) ! j)))"
    and "tumor_allele_b r = Str (snd (get_repcn ff (split (strip line) (CHR 0x09) ! j)))"
  shows "read_with ff line r"
proof -
  have "split (strip line) (CHR 0x09) ! i \<in> set (split (strip line) (CHR 0x09))"
    using assms(1) by (rule nth_mem)
  moreover have "split (strip line) (CHR 0x09) ! j \<in> set (split (strip line) (CHR 0x09))"
    using assms(2) by (rule nth_mem)
  ultimately show ?thesis
    unfolding read_with_def Let_def list_ex_iff using assms(3-6) by blast
qed

lemma process_line_read:
  "process_line path st line = Inr st' \<Longrightarrow>
   rows st' = rows st \<or>
   (\<exists>r ff. rows st' = rows st @ [r] \<and> format_fields st' = Some ff \<and> read_with ff line r)"
  by (auto simp: process_line_def Let_def sample_column_def
      split: if_splits sum.splits option.splits intro!: read_withI)

lemma scan_read_set:
  "scan path st f = Inr st' \<Longrightarrow> format_fields st = Some ff \<Longrightarrow>
   set (lines_of f) \<subseteq> set ls \<Longrightarrow>
   list_all (\<lambda>r. list_ex (\<lambda>l. read_with ff l r) ls) (rows st) \<Longrightarrow>
   list_all (\<lambda>r. list_ex (\<lambda>l. read_with ff l r) ls) (rows st')"
proof (induction path st f rule: scan.induct)
  case (3 path st l rest)
  from "3.prems"(1) obtain st1 where s1: "process_line path st l = Inr st1"
    and s2: "scan path st1 rest = Inr st'"
    by (auto split: sum.splits)
  have f1: "format_fields st1 = Some ff"
    using process_line_format[OF s1] "3.prems"(2) by simp
  have lin: "l \<in> set ls" and sub: "set (lines_of rest) \<subseteq> set ls"
    using "3.prems"(3) by (auto simp: lines_of_def)
  have "list_all (\<lambda>r. list_ex (\<lambda>l. read_with ff l r) ls) (rows st1)"
    using process_line_read[OF s1] "3.prems"(4) f1 lin
    by (auto simp: list_ex_iff list_all_iff)
  from "3.IH"[OF s1 s2 f1 sub this] show ?case .
qed simp_all

lemma scan_read_unset:
  "scan path st f = Inr st' \<Longrightarrow> format_fields st = None \<Longrightarrow> rows st = [] \<Longrightarrow>
   (case first_format (lines_of f) of
      None \<Rightarrow> rows st' = []
    | Some ff \<Rightarrow> list_all (\<lambda>r. list_ex (\<lambda>l. read_with ff l r) (lines_of f)) (rows st'))"
proof (induction path st f rule: scan.induct)
  case (1 path st)
  then show ?case by (simp add: lines_of_def first_format_def)
next
  case (2 path st rest)
  then show ?case by simp
next
  case (3 path st l rest)
  from "3.prems"(1) obtain st1 where s1: "process_line path st l = Inr st1"
    and s2: "scan path st1 rest = Inr st'"
    by (auto split: sum.splits)
  have lo: "lines_of (Line l # rest) = l # lines_of rest" by (simp add: lines_of_def)
  show ?case
  proof (cases "reaches_format l")
    case False
    then have f1: "format_fields st1 = None"
      using process_line_format[OF s1] "3.prems"(2) by simp
    have r1: "rows st1 = []"
      using process_line_read[OF s1] "3.prems"(3) f1 by auto
    have ff: "first_format (l # lines_of rest) = first_format (lines_of rest)"
      using False by (simp add: first_format_def)
    from "3.IH"[OF s1 s2 f1 r1] show ?thesis
      unfolding lo ff
      by (auto simp: list_all_iff list_ex_iff split: option.splits)
  next
    case True
    then have f1: "format_fields st1 = Some (format_column l)"
      using process_line_format[OF s1] "3.prems"(2) by simp
    have ff: "first_format (l # lines_of rest) = Some (format_column l)"
      using True by (simp add: first_format_def)
    have "list_all (\<lambda>r. list_ex (\<lambda>l'. read_with (format_column l) l' r) (l # lines_of rest)) (rows st1)"
      using process_line_read[OF s1] "3.prems"(3) f1
      by (auto simp: list_ex_iff list_all_iff)
    from scan_read_set[OF s2 f1 _ this] show ?thesis
      unfolding lo ff by auto
  qed
qed

section \<open>The rejection ratio\<close>

text \<open>
  Claim C9. When \<open>process_vcf_to_rows\<close> returns, the ratio it reports is rejected /
  (rejected + accepted) * 100, where rejected counts the data lines with at least ten columns whose
  FILTER is not PASS and accepted is the number of records returned; the ratio lies between 0
  and 100; and it is computed exactly when rejected + accepted is positive, so the division never
  has a zero divisor. (The ratio is taken as an exact rational.)
\<close>

theorem filter_ratio_guarded:
  assumes "process_vcf_to_rows path f = Inr (rs, pt)"
  shows "pt = (if 0 < length (filter filter_rejected (lines_of f)) + length rs
               then Some (of_nat (length (filter filter_rejected (lines_of f)))
                          / of_nat (length (filter filter_rejected (lines_of f)) + length rs) * 100)
               else None)
         \<and> (case pt of None \<Rightarrow> length (filter filter_rejected (lines_of f)) + length rs = 0
             | Some p \<Rightarrow> 0 \<le> p \<and> p \<le> 100)"
proof -
  from assms obtain st where sc: "scan path init_state f = Inr st"
    and rs: "rs = rows st"
    and pt: "pt = filter_not_passed_pt (written_variants st) (filter_not_passed_count st)"
    by (auto simp: process_vcf_to_rows_def split: sum.splits)
  have w: "written_variants st = length rs"
    using scan_written[OF sc] rs by (simp add: init_state_def)
  have c: "filter_not_passed_count st = length (filter filter_rejected (lines_of f))"
    using scan_count[OF sc] by (simp add: init_state_def)
  have le: "(of_nat a :: rat) / of_nat (a + b) * 100 \<le> 100" if "0 < a + b" for a b :: nat
  proof -
    have "(of_nat a :: rat) \<le> of_nat (a + b)" by simp
    moreover have "(0::rat) < of_nat (a + b)" using that by (simp only: of_nat_0_less_iff)
    ultimately have "(of_nat a :: rat) / of_nat (a + b) \<le> 1"
      by (simp add: divide_le_eq_1)
    moreover have "q * 100 \<le> 100" if "q \<le> 1" for q :: rat
      using that by linarith
    ultimately show ?thesis by blast
  qed
  show ?thesis
    unfolding pt w c filter_not_passed_pt_def Let_def
    using le[of "length (filter filter_rejected (lines_of f))" "length rs"]
    by (auto simp: add.commute)
qed

theorem filter_ratio_guarded_witness:
  "process_vcf_to_rows ''d/x.vcf'' [Line ex_header, Line ex_lowq, Line ex_pass] = Inr ([ex_row], Some 50)
   \<and> (Some (50::rat) = (if 0 < length (filter filter_rejected (lines_of [Line ex_header, Line ex_lowq, Line ex_pass])) + length [ex_row]
               then Some (of_nat (length (filter filter_rejected (lines_of [Line ex_header, Line ex_lowq, Line ex_pass])))
                          / of_nat (length (filter filter_rejected (lines_of [Line ex_header, Line ex_lowq, Line ex_pass])) + length [ex_row]) * 100)
               else None)
         \<and> (case Some (50::rat) of None \<Rightarrow> length (filter filter_rejected (lines_of [Line ex_header, Line ex_lowq, Line ex_pass])) + length [ex_row] = 0
             | Some p \<Rightarrow> 0 \<le> p \<and> p \<le> 100))"
proof -
  have h: "process_vcf_to_rows ''d/x.vcf'' [Line ex_header, Line ex_lowq, Line ex_pass] = Inr ([ex_row], Some 50)"
    by code_simp
  show ?thesis using h filter_ratio_guarded[OF h] by blast
qed

section \<open>Emitted records\<close>

lemma emitted_alleles_numeric:
  assumes "process_vcf_to_rows path f = Inr (rs, pt)"
  shows "list_all numeric_alleles rs"
proof -
  from assms obtain st where sc: "scan path init_state f = Inr st" and rs: "rs = rows st"
    by (auto simp: process_vcf_to_rows_def split: sum.splits)
  have "list_all numeric_alleles (rows init_state)" by (simp add: init_state_def)
  from scan_rows[OF sc this] rs show ?thesis by simp
qed

lemma non_numeric_line_dropped:
  assumes "process_line path st line = Inr st'"
    and "normal_idx st = Some ni" and "tumor_idx st = Some ti"
    and "\<not> (isnumeric (fst (get_repcn ff (split (strip line) (CHR 0x09) ! ni))) \<and>
            isnumeric (snd (get_repcn ff (split (strip line) (CHR 0x09) ! ni))) \<and>
            isnumeric (fst (get_repcn ff (split (strip line) (CHR 0x09) ! ti))) \<and>
            isnumeric (snd (get_repcn ff (split (strip line) (CHR 0x09) ! ti))))"
    and "ff = (case format_fields st of None \<Rightarrow> format_column line | Some f \<Rightarrow> f)"
  shows "rows st' = rows st"
  using assms
  by (auto simp: process_line_def Let_def sample_column_def format_column_def
      split: if_splits sum.splits option.splits)

text \<open>
  Claim C1. Every record emitted by \<open>process_vcf_to_rows\<close> should have four allele fields made
  of decimal digits only, a line with an allele string that is not numeric giving no record.
  The guard of the source is \<open>str.isnumeric\<close>, which accepts numeric characters that are not
  decimal digits. In the file below the line whose tumor sample has the missing value \<open>.\<close> is
  dropped, but the line whose normal sample has the repeat-copy-number SUPERSCRIPT TWO is
  emitted; its normal alleles are not decimal digits, and \<open>int\<close> in the matrix builder cannot
  parse them, so all four derived quantities of the record are missing.
\<close>

theorem superscript_allele_emitted:
  "process_vcf_to_rows ''d/x.vcf''
      [Line ex_header, Line ex_pass, Line ex_missing_tumor, Line ex_superscript]
     = Inr ([ex_row, ex_superscript_row], Some 0)
   \<and> \<not> decimal_alleles ex_superscript_row
   \<and> int_cell (normal_allele_a ex_superscript_row) = None
   \<and> compute_allele_changes ex_superscript_row
       = \<lparr>change_a = None, change_b = None, ref_a = None, ref_b = None\<rparr>"
  by code_simp

section \<open>The FORMAT key ordering\<close>

text \<open>
  Claim C4, as stated: the ordering is taken from the ninth column of the first non-header data
  line. This fails when that line is skipped before the FORMAT step: here the first data line is
  rejected by FILTER and announces \<open>GT:REPCN\<close>, and the ordering kept for the file is that of
  the second data line, \<open>REPCN:GT\<close>. The record of the second line is emitted; read with
  the ordering of the first data line its tumor sample \<open>5,7:0/1\<close> would have given the
  non-numeric alleles \<open>0/1\<close> and no record.
\<close>

theorem format_first_data_line_counterexample:
  "scan ''d/x.vcf'' init_state [Line ex_header, Line ex_lowq, Line ex_pass]
     = Inr \<lparr>rows = [ex_row], filter_not_passed_count = 1, written_variants = 1,
            header_cols = Some (split (strip ex_header) (CHR 0x09)),
            normal_idx = Some 9, tumor_idx = Some 10,
            format_fields = Some [''REPCN'', ''GT'']\<rparr>
   \<and> spec_first_data_line_format (lines_of [Line ex_header, Line ex_lowq, Line ex_pass])
     = Some [''GT'', ''REPCN'']
   \<and> get_repcn [''GT'', ''REPCN''] ''5,7:0/1'' = (''0/1'', ''0/1'')"
  by code_simp

text \<open>
  Claim C4, amended: within one file the ordering is determined once, from the ninth column of the
  first data line that has at least ten columns, has FILTER equal to PASS and is not marked
  \<open>PERFECT=FALSE\<close>; it is the ordering held when the scan ends, and every record of the file
  carries the allele values that some line of the file gives under that one ordering (in the
  witness the last line announces \<open>GT:REPCN\<close> and is still read as \<open>REPCN:GT\<close>).
\<close>

theorem format_fields_set_once:
  assumes "scan path init_state f = Inr st'"
  shows "format_fields st' = first_format (lines_of f)
         \<and> (case first_format (lines_of f) of
               None \<Rightarrow> rows st' = []
             | Some ff \<Rightarrow> list_all (\<lambda>r. list_ex (\<lambda>l. read_with ff l r) (lines_of f)) (rows st'))"
proof
  show "format_fields st' = first_format (lines_of f)"
    using scan_format[OF assms] by (simp add: init_state_def)
  show "case first_format (lines_of f) of
               None \<Rightarrow> rows st' = []
             | Some ff \<Rightarrow> list_all (\<lambda>r. list_ex (\<lambda>l. read_with ff l r) (lines_of f)) (rows st')"
    using scan_read_unset[OF assms] by (simp add: init_state_def)
qed

theorem format_fields_set_once_witness:
  "scan ''d/x.vcf'' init_state [Line ex_header, Line ex_pass, Line ex_other_format]
     = Inr \<lparr>rows = [ex_row, ex_other_row], filter_not_passed_count = 0, written_variants = 2,
            header_cols = Some (split (strip ex_header) (CHR 0x09)),
            normal_idx = Some 9, tumor_idx = Some 10,
            format_fields = Some [''REPCN'', ''GT'']\<rparr>
   \<and> format_fields \<lparr>rows = [ex_row, ex_other_row], filter_not_passed_count = 0, written_variants = 2,
            header_cols = Some (split (strip ex_header) (CHR 0x09)),
            normal_idx = Some 9, tumor_idx = Some 10,
            format_fields = Some [''REPCN'', ''GT'']\<rparr> = first_format (lines_of [Line ex_header, Line ex_pass, Line ex_other_format])
   \<and> (case first_format (lines_of [Line ex_header, Line ex_pass, Line ex_other_format]) of
         None \<Rightarrow> rows \<lparr>rows = [ex_row, ex_other_row], filter_not_passed_count = 0, written_variants = 2,
            header_cols = Some (split (strip ex_header) (CHR 0x09)),
            normal_idx = Some 9, tumor_idx = Some 10,
            format_fields = Some [''REPCN'', ''GT'']\<rparr> = []
       | Some ff \<Rightarrow> list_all (\<lambda>r. list_ex (\<lambda>l. read_with ff l r) (lines_of [Line ex_header, Line ex_pass, Line ex_other_format]))
           (rows \<lparr>rows = [ex_row, ex_other_row], filter_not_passed_count = 0, written_variants = 2,
            header_cols = Some (split (strip ex_header) (CHR 0x09)),
            normal_idx = Some 9, tumor_idx = Some 10,
            format_fields = Some [''REPCN'', ''GT'']\<rparr>))"
proof -
  have h: "scan ''d/x.vcf'' init_state [Line ex_header, Line ex_pass, Line ex_other_format]
     = Inr \<lparr>rows = [ex_row, ex_other_row], filter_not_passed_count = 0, written_variants = 2,
            header_cols = Some (split (strip ex_header) (CHR 0x09)),
            normal_idx = Some 9, tumor_idx = Some 10,
            format_fields = Some [''REPCN'', ''GT'']\<rparr>"
    by code_simp
  show ?thesis using h format_fields_set_once[OF h] by blast
qed

section \<open>The scan of a directory\<close>

lemma parse_file_fst:
  "fst (parse_file d acc entry) = fst acc @ file_rows d entry"
  by (auto simp: parse_file_def file_rows_def Let_def split: sum.splits prod.splits)

lemma parse_file_snd:
  "set (snd acc) \<subseteq> set (snd (parse_file d acc entry))"
  by (auto simp: parse_file_def Let_def split: sum.splits prod.splits)

lemma foldl_parse_file_fst:
  "fst (foldl (parse_file d) acc xs) = fst acc @ concat (map (file_rows d) xs)"
  by (induction xs arbitrary: acc) (simp_all add: parse_file_fst)

lemma foldl_parse_file_snd:
  "set (snd acc) \<subseteq> set (snd (foldl (parse_file d) acc xs))"
proof (induction xs arbitrary: acc)
  case Nil
  show ?case by simp
next
  case (Cons x xs)
  have "set (snd acc) \<subseteq> set (snd (parse_file d acc x))" by (rule parse_file_snd)
  also have "\<dots> \<subseteq> set (snd (foldl (parse_file d) (parse_file d acc x) xs))" by (rule Cons.IH)
  finally show ?case by simp
qed

text \<open>
  Claim C5. If parsing one file of the directory raises an error, \<open>parse_vcf_files\<close> leaves that
  file out entirely: the returned table is the table of the files before it followed by the
  table of the files after it, so none of the records the file had produced before the error
  appear and the remaining files are still processed; and the error is reported. (In the witness
  the failing file has produced one record before its third line raises.)
\<close>

theorem failing_file_skipped:
  assumes ext: "endswith file ''.vcf'' \<or> endswith file ''.vcf.gz''"
    and fail: "process_vcf_to_rows (path_join input_dir file) content = Inl e"
  shows "data (fst (parse_vcf_files input_dir (before @ (file, content) # after)))
           = data (fst (parse_vcf_files input_dir before))
             @ data (fst (parse_vcf_files input_dir after))
         \<and> Skipping file e
             \<in> set (snd (parse_vcf_files input_dir (before @ (file, content) # after)))"
proof
  have none: "file_rows input_dir (file, content) = []"
    using ext fail by (auto simp: file_rows_def parse_file_def Let_def)
  show "data (fst (parse_vcf_files input_dir (before @ (file, content) # after)))
           = data (fst (parse_vcf_files input_dir before))
             @ data (fst (parse_vcf_files input_dir after))"
    by (simp add: parse_vcf_files_def Let_def foldl_parse_file_fst parse_file_fst none)
  have "Skipping file e \<in> set (snd (parse_file input_dir acc (file, content)))" for acc
    using ext fail by (auto simp: parse_file_def Let_def)
  then have "Skipping file e \<in> set (snd (foldl (parse_file input_dir)
       (parse_file input_dir (foldl (parse_file input_dir) ([], []) before) (file, content)) after))"
    using foldl_parse_file_snd by blast
  then show "Skipping file e
             \<in> set (snd (parse_vcf_files input_dir (before @ (file, content) # after)))"
    by (simp add: parse_vcf_files_def Let_def)
qed

theorem failing_file_skipped_witness:
  "(endswith ''x.vcf'' ''.vcf'' \<or> endswith ''x.vcf'' ''.vcf.gz'')
   \<and> process_vcf_to_rows (path_join ''d'' ''x.vcf'') [Line ex_header, Line ex_pass, Line ex_one_sample]
       = Inl (ValueError_sample_columns ''d/x.vcf'')
   \<and> data (fst (parse_vcf_files ''d''
        ([(''a.vcf'', [Line ex_header, Line ex_pass])]
         @ (''x.vcf'', [Line ex_header, Line ex_pass, Line ex_one_sample])
         # [(''b.vcf'', [Line ex_header, Line ex_pass])])))
       = [ex_row\<lparr>sample := ''a''\<rparr>, ex_row\<lparr>sample := ''b''\<rparr>]
   \<and> data (fst (parse_vcf_files ''d''
        ([(''a.vcf'', [Line ex_header, Line ex_pass])]
         @ (''x.vcf'', [Line ex_header, Line ex_pass, Line ex_one_sample])
         # [(''b.vcf'', [Line ex_header, Line ex_pass])])))
       = data (fst (parse_vcf_files ''d'' [(''a.vcf'', [Line ex_header, Line ex_pass])]))
         @ data (fst (parse_vcf_files ''d'' [(''b.vcf'', [Line ex_header, Line ex_pass])]))
   \<and> Skipping ''x.vcf'' (ValueError_sample_columns ''d/x.vcf'')
       \<in> set (snd (parse_vcf_files ''d''
        ([(''a.vcf'', [Line ex_header, Line ex_pass])]
         @ (''x.vcf'', [Line ex_header, Line ex_pass, Line ex_one_sample])
         # [(''b.vcf'', [Line ex_header, Line ex_pass])])))"
proof -
  have e: "endswith ''x.vcf'' ''.vcf'' \<or> endswith ''x.vcf'' ''.vcf.gz''"
    by code_simp
  have f: "process_vcf_to_rows (path_join ''d'' ''x.vcf'')
             [Line ex_header, Line ex_pass, Line ex_one_sample]
           = Inl (ValueError_sample_columns ''d/x.vcf'')"
    by code_simp
  have v: "data (fst (parse_vcf_files ''d''
        ([(''a.vcf'', [Line ex_header, Line ex_pass])]
         @ (''x.vcf'', [Line ex_header, Line ex_pass, Line ex_one_sample])
         # [(''b.vcf'', [Line ex_header, Line ex_pass])])))
       = [ex_row\<lparr>sample := ''a''\<rparr>, ex_row\<lparr>sample := ''b''\<rparr>]"
    by code_simp
  show ?thesis
    using e f v failing_file_skipped[OF e f, of "[(''a.vcf'', [Line ex_header, Line ex_pass])]"
        "[(''b.vcf'', [Line ex_header, Line ex_pass])]"]
    by blast
qed

section \<open>Feature labels and the count matrix\<close>

lemma dropna_append: "dropna (xs @ ys) = dropna xs @ dropna ys"
  by (simp add: dropna_def)

lemma mset_df_long_append:
  "mset (df_long ru rl ch mc (xs @ ys)) = mset (df_long ru rl ch mc xs) + mset (df_long ru rl ch mc ys)"
  by (simp add: df_long_def dropna_append)

lemma count_df_long_append:
  "count_list (df_long ru rl ch mc (xs @ ys)) k
     = count_list (df_long ru rl ch mc xs) k + count_list (df_long ru rl ch mc ys) k"
proof -
  have "count (mset (df_long ru rl ch mc (xs @ ys))) k
      = count (mset (df_long ru rl ch mc xs) + mset (df_long ru rl ch mc ys)) k"
    by (simp only: mset_df_long_append)
  then show ?thesis by (simp add: count_mset)
qed

lemma py_int_examples:
  "py_int ''8'' = Some 8" "py_int ''10'' = Some 10" "py_int ''11'' = Some 11"
  by code_simp+

lemma str_examples:
  "str_int 8 = ''8''" "str_int 10 = ''10''" "str_nat 2 = ''2''" "delta_part 1 = ''+1''"
  by code_simp+

lemma motif_examples:
  "motif_parts (Some ''length'') (Str ''AT'') = [''LEN2'']" "motif_parts None (Str ''AT'') = []"
  by code_simp+

lemma scenario_fields:
  "motif (scenario_row s) = Str ''AT''" "sample (scenario_row s) = s"
  by (simp_all add: scenario_row_def)

lemma scenario_changes:
  "compute_allele_changes (scenario_row s)
     = \<lparr>change_a = Some 0, change_b = Some 1, ref_a = Some 8, ref_b = Some 10\<rparr>"
  by (simp add: compute_allele_changes_def scenario_row_def int_cell_def py_int_examples)

lemma scenario_long_1:
  "df_long (Some ''length'') True True motif [scenario_row s] = [(s, ''LEN2_10_+1'')]"
  by (simp add: df_long_def dropna_def mutation_type_a_def mutation_type_b_def scenario_changes
      make_feature_def motif_parts_def isna_def str_cell_def str_examples)
     (simp add: scenario_row_def motif_examples str_examples)

lemma scenario_long_2:
  "df_long None True False motif [scenario_row s] = [(s, ''8''), (s, ''10'')]"
  by (simp add: df_long_def dropna_def mutation_type_a_def mutation_type_b_def scenario_changes
      make_feature_def motif_parts_def isna_def str_cell_def str_examples)
     (simp add: scenario_row_def motif_examples str_examples)


lemma motif_col_std: "motif_col std_columns = motif"
  by (rule ext) (simp add: motif_col_def std_columns_def)

lemma valid_std_columns: "valid_columns std_columns"
  by code_simp

lemma build_valid:
  assumes "valid_columns (columns df)" and "ru \<in> {None, Some ''length'', Some ''ru''}"
    and "data df \<noteq> []"
  shows "build_mutation_matrix ru rl ch df =
           (if df_long ru rl ch (motif_col (columns df)) (data df) = [] then Inr empty_matrix
            else Inr (mutation_counts (df_long ru rl ch (motif_col (columns df)) (data df))))"
proof -
  have "filter (\<lambda>c. c \<notin> set (columns df)) required_cols = []"
    using assms(1) by (auto simp: valid_columns_def list_all_iff filter_empty_conv)
  moreover have "\<not> (''motif'' \<notin> set (columns df) \<and> ''RU'' \<notin> set (columns df))"
    using assms(1) by (auto simp: valid_columns_def)
  ultimately show ?thesis
    using assms(2,3) by (simp add: build_mutation_matrix_def Let_def)
qed

lemma index_of_nth:
  assumes "x \<in> set xs"
  shows "index_of x xs < length xs \<and> xs ! index_of x xs = x"
  using assms by (induction xs) (auto simp: index_of_def)

lemma cell_count_mutation_counts:
  "cell_count (mutation_counts ev) s l = count_list ev (s, l)"
proof (cases "s \<in> fst ` set ev \<and> l \<in> snd ` set ev")
  case True
  define idx where "idx = sort (remdups (map fst ev))"
  define cols where "cols = sort (remdups (map snd ev))"
  have si: "s \<in> set idx" and lc: "l \<in> set cols"
    using True by (simp_all add: idx_def cols_def)
  note i = index_of_nth[OF si] and j = index_of_nth[OF lc]
  have "map (\<lambda>s. map (\<lambda>l. count_list ev (s, l)) cols) idx ! index_of s idx ! index_of l cols
      = count_list ev (idx ! index_of s idx, cols ! index_of l cols)"
    using i j by simp
  with i j si lc show ?thesis
    by (simp add: cell_count_def mutation_counts_def Let_def idx_def[symmetric] cols_def[symmetric])
next
  case False
  then have "(s, l) \<notin> set ev" by force
  then have z: "count_list ev (s, l) = 0" by (simp add: count_list_0_iff)
  from False have "\<not> (s \<in> set (mat_index (mutation_counts ev))
                  \<and> l \<in> set (mat_columns (mutation_counts ev)))"
    by (simp add: mutation_counts_def Let_def)
  then show ?thesis using z by (auto simp: cell_count_def)
qed

lemma build_cell_count:
  assumes "build_mutation_matrix ru rl ch df = Inr m"
  shows "cell_count m s l
       = count_list (df_long ru rl ch (motif_col (columns df)) (data df)) (s, l)"
proof -
  define ev where "ev = df_long ru rl ch (motif_col (columns df)) (data df)"
  have "(if ev = [] then Inr empty_matrix else Inr (mutation_counts ev)) = (Inr m :: error + matrix)"
    using assms unfolding build_mutation_matrix_def Let_def ev_def
    by (simp split: if_splits)
  then have "m = empty_matrix \<and> ev = [] \<or> m = mutation_counts ev"
    by (cases "ev = []") auto
  then consider (e) "m = empty_matrix" "ev = []" | (c) "m = mutation_counts ev"
    by blast
  then have "cell_count m s l = count_list ev (s, l)"
  proof cases
    case e
    then show ?thesis by (simp add: cell_count_def empty_matrix_def)
  next
    case c
    then show ?thesis by (simp add: cell_count_mutation_counts)
  qed
  then show ?thesis by (simp only: ev_def)
qed

lemma build_std_total:
  assumes "ru \<in> {None, Some ''length'', Some ''ru''}" and "rs \<noteq> []"
  shows "\<exists>m. build_mutation_matrix ru rl ch \<lparr>columns = std_columns, data = rs\<rparr> = Inr m"
  using build_valid[of "\<lparr>columns = std_columns, data = rs\<rparr>" ru rl ch] assms
  by (simp add: valid_std_columns)

lemma scenario_increment_1:
  assumes "build_mutation_matrix (Some ''length'') True True
             \<lparr>columns = std_columns, data = rs\<rparr> = Inr m0"
    and "build_mutation_matrix (Some ''length'') True True
             \<lparr>columns = std_columns, data = rs @ [scenario_row s]\<rparr> = Inr m"
  shows "cell_count m s' l'
       = cell_count m0 s' l' + (if s' = s \<and> l' = ''LEN2_10_+1'' then 1 else 0)"
  using build_cell_count[OF assms(1), of s' l'] build_cell_count[OF assms(2), of s' l']
  by (simp add: motif_col_std count_df_long_append scenario_long_1)

lemma scenario_increment_2:
  assumes "build_mutation_matrix None True False
             \<lparr>columns = std_columns, data = rs\<rparr> = Inr m0"
    and "build_mutation_matrix None True False
             \<lparr>columns = std_columns, data = rs @ [scenario_row s]\<rparr> = Inr m"
  shows "cell_count m s' l'
       = cell_count m0 s' l' + (if s' = s \<and> l' = ''8'' then 1 else 0)
                             + (if s' = s \<and> l' = ''10'' then 1 else 0)"
  using build_cell_count[OF assms(1), of s' l'] build_cell_count[OF assms(2), of s' l']
  by (simp add: motif_col_std count_df_long_append scenario_long_2)

lemma sort_labels: "sort (remdups [''8'', ''10'']) = [''10'', ''8'']"
  by code_simp

text \<open>
  Claim C2. For the record with motif AT, normal alleles 8 and 10 and tumor alleles 8 and 11
  (in either order within each pair, the pairs being sorted and matched by rank), with
  \<open>ru = "length"\<close>, \<open>ref_length = True\<close>, \<open>change = True\<close> the slot-A event is suppressed (its
  delta is 0) and the only event is the slot-B event with label \<open>LEN2_10_+1\<close>. Alone the record
  gives the matrix with that one cell equal to 1, and appended to any table with rows it raises
  the count of its sample in that column by one and changes no other count of the matrix. With
  \<open>ru = None\<close>, \<open>ref_length = True\<close>, \<open>change = False\<close> the same record gives exactly two
  events, with labels \<open>8\<close> and \<open>10\<close>, each raising the count of its sample in its column by one.
\<close>

theorem scenario_labels:
  "compute_allele_changes (scenario_row s)
     = \<lparr>change_a = Some 0, change_b = Some 1, ref_a = Some 8, ref_b = Some 10\<rparr>
   \<and> compute_allele_changes ((scenario_row s)\<lparr>tumor_allele_a := Str ''11'',
          tumor_allele_b := Str ''8'', normal_allele_a := Str ''10'', normal_allele_b := Str ''8''\<rparr>)
     = \<lparr>change_a = Some 0, change_b = Some 1, ref_a = Some 8, ref_b = Some 10\<rparr>
   \<and> mutation_type_a (Some ''length'') True True motif (scenario_row s) = None
   \<and> mutation_type_b (Some ''length'') True True motif (scenario_row s) = Some ''LEN2_10_+1''
   \<and> df_long (Some ''length'') True True motif [scenario_row s] = [(s, ''LEN2_10_+1'')]
   \<and> build_mutation_matrix (Some ''length'') True True
        \<lparr>columns = std_columns, data = [scenario_row s]\<rparr>
      = Inr \<lparr>mat_index = [s], mat_columns = [''LEN2_10_+1''], mat_values = [[1]]\<rparr>
   \<and> (\<exists>m0 m.
        build_mutation_matrix (Some ''length'') True True
          \<lparr>columns = std_columns, data = x # xs\<rparr> = Inr m0
        \<and> build_mutation_matrix (Some ''length'') True True
          \<lparr>columns = std_columns, data = (x # xs) @ [scenario_row s]\<rparr> = Inr m
        \<and> (\<forall>s' l'. cell_count m s' l'
               = cell_count m0 s' l' + (if s' = s \<and> l' = ''LEN2_10_+1'' then 1 else 0)))
   \<and> df_long None True False motif [scenario_row s] = [(s, ''8''), (s, ''10'')]
   \<and> build_mutation_matrix None True False
        \<lparr>columns = std_columns, data = [scenario_row s]\<rparr>
      = Inr \<lparr>mat_index = [s], mat_columns = [''10'', ''8''], mat_values = [[1, 1]]\<rparr>
   \<and> (\<exists>m0 m.
        build_mutation_matrix None True False
          \<lparr>columns = std_columns, data = x # xs\<rparr> = Inr m0
        \<and> build_mutation_matrix None True False
          \<lparr>columns = std_columns, data = (x # xs) @ [scenario_row s]\<rparr> = Inr m
        \<and> (\<forall>s' l'. cell_count m s' l'
               = cell_count m0 s' l' + (if s' = s \<and> l' = ''8'' then 1 else 0)
                                     + (if s' = s \<and> l' = ''10'' then 1 else 0)))"
proof -
  have sw: "compute_allele_changes ((scenario_row s)\<lparr>tumor_allele_a := Str ''11'',
          tumor_allele_b := Str ''8'', normal_allele_a := Str ''10'', normal_allele_b := Str ''8''\<rparr>)
     = \<lparr>change_a = Some 0, change_b = Some 1, ref_a = Some 8, ref_b = Some 10\<rparr>"
    by (simp add: compute_allele_changes_def scenario_row_def int_cell_def py_int_examples)
  have a: "mutation_type_a (Some ''length'') True True motif (scenario_row s) = None"
    by (simp add: mutation_type_a_def scenario_changes make_feature_def Let_def)
  have b: "mutation_type_b (Some ''length'') True True motif (scenario_row s) = Some ''LEN2_10_+1''"
    by (simp add: mutation_type_b_def scenario_changes make_feature_def isna_def Let_def
        scenario_fields motif_examples str_examples)
  have m1: "build_mutation_matrix (Some ''length'') True True
        \<lparr>columns = std_columns, data = [scenario_row s]\<rparr>
      = Inr \<lparr>mat_index = [s], mat_columns = [''LEN2_10_+1''], mat_values = [[1]]\<rparr>"
    by (simp add: build_valid valid_std_columns motif_col_std scenario_long_1 mutation_counts_def)
  have m2: "build_mutation_matrix None True False
        \<lparr>columns = std_columns, data = [scenario_row s]\<rparr>
      = Inr \<lparr>mat_index = [s], mat_columns = [''10'', ''8''], mat_values = [[1, 1]]\<rparr>"
    using sort_labels
    by (simp add: build_valid valid_std_columns motif_col_std scenario_long_2 mutation_counts_def)
  have ne: "x # xs \<noteq> []" "(x # xs) @ [scenario_row s] \<noteq> []"
    by simp_all
  have i1: "\<exists>m0 m.
        build_mutation_matrix (Some ''length'') True True
          \<lparr>columns = std_columns, data = x # xs\<rparr> = Inr m0
        \<and> build_mutation_matrix (Some ''length'') True True
          \<lparr>columns = std_columns, data = (x # xs) @ [scenario_row s]\<rparr> = Inr m
        \<and> (\<forall>s' l'. cell_count m s' l'
               = cell_count m0 s' l' + (if s' = s \<and> l' = ''LEN2_10_+1'' then 1 else 0))"
  proof -
    obtain m0 where m0: "build_mutation_matrix (Some ''length'') True True
          \<lparr>columns = std_columns, data = x # xs\<rparr> = Inr m0"
      using build_std_total[OF _ ne(1), of "Some ''length''"] by auto
    obtain m where m: "build_mutation_matrix (Some ''length'') True True
          \<lparr>columns = std_columns, data = (x # xs) @ [scenario_row s]\<rparr> = Inr m"
      using build_std_total[OF _ ne(2), of "Some ''length''"] by auto
    from scenario_increment_1[OF m0 m] m0 m show ?thesis by blast
  qed
  have i2: "\<exists>m0 m.
        build_mutation_matrix None True False
          \<lparr>columns = std_columns, data = x # xs\<rparr> = Inr m0
        \<and> build_mutation_matrix None True False
          \<lparr>columns = std_columns, data = (x # xs) @ [scenario_row s]\<rparr> = Inr m
        \<and> (\<forall>s' l'. cell_count m s' l'
               = cell_count m0 s' l' + (if s' = s \<and> l' = ''8'' then 1 else 0)
                                     + (if s' = s \<and> l' = ''10'' then 1 else 0))"
  proof -
    obtain m0 where m0: "build_mutation_matrix None True False
          \<lparr>columns = std_columns, data = x # xs\<rparr> = Inr m0"
      using build_std_total[OF _ ne(1), of None] by auto
    obtain m where m: "build_mutation_matrix None True False
          \<lparr>columns = std_columns, data = (x # xs) @ [scenario_row s]\<rparr> = Inr m"
      using build_std_total[OF _ ne(2), of None] by auto
    from scenario_increment_2[OF m0 m] m0 m show ?thesis by blast
  qed
  show ?thesis
    using scenario_changes sw a b scenario_long_1 m1 i1 scenario_long_2 m2 i2 by blast
qed

lemma df_long_single:
  "df_long ru rl ch mc [r] =
     (case mutation_type_a ru rl ch mc r of None \<Rightarrow> [] | Some l \<Rightarrow> [(sample r, l)])
     @ (case mutation_type_b ru rl ch mc r of None \<Rightarrow> [] | Some l \<Rightarrow> [(sample r, l)])"
  by (simp add: df_long_def dropna_def)

lemma mset_df_long_insert:
  "mset (df_long ru rl ch mc (before @ r # after))
     = mset (df_long ru rl ch mc [r]) + mset (df_long ru rl ch mc (before @ after))"
proof -
  have "before @ r # after = before @ ([r] @ after)" by simp
  then show ?thesis by (simp only: mset_df_long_append) simp
qed


lemma make_feature_na: "make_feature ru rl ch NA refv delta = None"
  by (simp add: make_feature_def isna_def)


lemma make_feature_all_off: "make_feature None False False m refv delta = None"
  by (simp add: make_feature_def motif_parts_def Let_def)





lemma mset_df_long_sum:
  "mset (df_long ru rl ch mc rs) = (\<Sum>r\<in>#mset rs. mset (df_long ru rl ch mc [r]))"
proof (induction rs)
  case Nil
  show ?case by (simp add: df_long_def dropna_def)
next
  case (Cons x xs)
  have "mset (df_long ru rl ch mc ([x] @ xs))
      = mset (df_long ru rl ch mc [x]) + mset (df_long ru rl ch mc xs)"
    by (rule mset_df_long_append)
  then have step: "mset (df_long ru rl ch mc (x # xs))
      = mset (df_long ru rl ch mc [x]) + mset (df_long ru rl ch mc xs)"
    by (simp only: append_Cons append_Nil)
  show ?case by (subst step) (simp add: Cons.IH)
qed

lemma mset_df_long_perm:
  assumes "mset rs1 = mset rs2"
  shows "mset (df_long ru rl ch mc rs1) = mset (df_long ru rl ch mc rs2)"
proof -
  have "mset (df_long ru rl ch mc rs1) = (\<Sum>r\<in>#mset rs1. mset (df_long ru rl ch mc [r]))"
    by (rule mset_df_long_sum)
  also have "\<dots> = (\<Sum>r\<in>#mset rs2. mset (df_long ru rl ch mc [r]))"
    by (simp only: assms)
  also have "\<dots> = mset (df_long ru rl ch mc rs2)"
    by (rule mset_df_long_sum[symmetric])
  finally show ?thesis .
qed

lemma mutation_counts_mset:
  assumes "mset ev1 = mset ev2"
  shows "mutation_counts ev1 = mutation_counts ev2"
proof -
  have s: "set ev1 = set ev2" using assms by (rule mset_eq_setD)
  have i: "sort (remdups (map fst ev1)) = sort (remdups (map fst ev2))"
    using s by (simp add: sorted_list_of_set_sort_remdups[symmetric])
  have c: "sort (remdups (map snd ev1)) = sort (remdups (map snd ev2))"
    using s by (simp add: sorted_list_of_set_sort_remdups[symmetric])
  have n: "count_list ev1 k = count_list ev2 k" for k
    using assms by (metis count_mset)
  show ?thesis
    by (simp add: mutation_counts_def Let_def i c n)
qed

lemma build_mset:
  assumes "mset (df_long ru rl ch (motif_col (columns df1)) (data df1))
         = mset (df_long ru rl ch (motif_col (columns df2)) (data df2))"
    and "columns df1 = columns df2"
    and "(data df1 = []) = (data df2 = [])"
  shows "build_mutation_matrix ru rl ch df1 = build_mutation_matrix ru rl ch df2"
proof -
  define ev1 where "ev1 = df_long ru rl ch (motif_col (columns df2)) (data df1)"
  define ev2 where "ev2 = df_long ru rl ch (motif_col (columns df2)) (data df2)"
  have ms: "mset ev1 = mset ev2"
    using assms by (simp add: ev1_def ev2_def)
  have e: "(ev1 = []) = (ev2 = [])"
    using ms by (metis mset_zero_iff)
  have m: "mutation_counts ev1 = mutation_counts ev2"
    using ms by (rule mutation_counts_mset)
  have "(if ev1 = [] then Inr empty_matrix else Inr (mutation_counts ev1))
      = ((if ev2 = [] then Inr empty_matrix else Inr (mutation_counts ev2)) :: error + matrix)"
    using e m by simp
  then show ?thesis
    unfolding build_mutation_matrix_def Let_def assms(2) assms(3) ev1_def ev2_def
    by (simp only:)
qed

lemma mutation_counts_sorted:
  "sorted (mat_index (mutation_counts ev)) \<and> distinct (mat_index (mutation_counts ev)) \<and>
   sorted (mat_columns (mutation_counts ev)) \<and> distinct (mat_columns (mutation_counts ev))"
  by (simp add: mutation_counts_def Let_def)

lemma build_cases:
  assumes "build_mutation_matrix ru rl ch df = Inr m"
  shows "m = empty_matrix \<or> (\<exists>ev. m = mutation_counts ev)"
proof -
  define ev where "ev = df_long ru rl ch (motif_col (columns df)) (data df)"
  have "(if ev = [] then Inr empty_matrix else Inr (mutation_counts ev)) = (Inr m :: error + matrix)"
    using assms unfolding build_mutation_matrix_def Let_def ev_def
    by (simp split: if_splits)
  then show ?thesis by (cases "ev = []") auto
qed

text \<open>
  Claim C8. \<open>build_mutation_matrix\<close> is a function of its arguments, and for a fixed
  configuration two tables with the same columns whose rows are permutations of each other give
  exactly the same result (the same error, or the same row labels, column labels and counts);
  the row labels and the column labels of a returned matrix are sorted and without repetition.
\<close>

theorem row_order_invariant:
  assumes "mset (data df1) = mset (data df2)" and "columns df1 = columns df2"
  shows "build_mutation_matrix ru rl ch df1 = build_mutation_matrix ru rl ch df2
       \<and> (case build_mutation_matrix ru rl ch df1 of
            Inl e \<Rightarrow> True
          | Inr m \<Rightarrow> sorted (mat_index m) \<and> distinct (mat_index m) \<and>
                     sorted (mat_columns m) \<and> distinct (mat_columns m))"
proof
  have "mset (df_long ru rl ch (motif_col (columns df1)) (data df1))
      = mset (df_long ru rl ch (motif_col (columns df2)) (data df2))"
    unfolding assms(2) by (rule mset_df_long_perm[OF assms(1)])
  moreover have "(data df1 = []) = (data df2 = [])"
    using assms(1) by (metis mset_zero_iff)
  ultimately show "build_mutation_matrix ru rl ch df1 = build_mutation_matrix ru rl ch df2"
    using assms(2) by (intro build_mset)
  show "case build_mutation_matrix ru rl ch df1 of
            Inl e \<Rightarrow> True
          | Inr m \<Rightarrow> sorted (mat_index m) \<and> distinct (mat_index m) \<and>
                     sorted (mat_columns m) \<and> distinct (mat_columns m)"
  proof (cases "build_mutation_matrix ru rl ch df1")
    case (Inl e)
    then show ?thesis by simp
  next
    case (Inr m)
    from build_cases[OF Inr] have "sorted (mat_index m) \<and> distinct (mat_index m) \<and>
                     sorted (mat_columns m) \<and> distinct (mat_columns m)"
      using mutation_counts_sorted by (auto simp: empty_matrix_def)
    with Inr show ?thesis by simp
  qed
qed

theorem row_order_invariant_witness:
  "mset (data \<lparr>columns = std_columns, data = [scenario_row ''b'', same_pair_row, scenario_row ''a'']\<rparr>) = mset (data \<lparr>columns = std_columns, data = [scenario_row ''a'', scenario_row ''b'', same_pair_row]\<rparr>)
   \<and> columns \<lparr>columns = std_columns, data = [scenario_row ''b'', same_pair_row, scenario_row ''a'']\<rparr> = columns \<lparr>columns = std_columns, data = [scenario_row ''a'', scenario_row ''b'', same_pair_row]\<rparr>
   \<and> build_mutation_matrix (Some ''length'') True True \<lparr>columns = std_columns, data = [scenario_row ''b'', same_pair_row, scenario_row ''a'']\<rparr>
       = Inr \<lparr>mat_index = [''a'', ''b''], mat_columns = [''LEN2_10_+1''], mat_values = [[1], [1]]\<rparr>
   \<and> build_mutation_matrix (Some ''length'') True True \<lparr>columns = std_columns, data = [scenario_row ''b'', same_pair_row, scenario_row ''a'']\<rparr>
       = build_mutation_matrix (Some ''length'') True True \<lparr>columns = std_columns, data = [scenario_row ''a'', scenario_row ''b'', same_pair_row]\<rparr>
   \<and> (case build_mutation_matrix (Some ''length'') True True \<lparr>columns = std_columns, data = [scenario_row ''b'', same_pair_row, scenario_row ''a'']\<rparr> of
            Inl e \<Rightarrow> True
          | Inr m \<Rightarrow> sorted (mat_index m) \<and> distinct (mat_index m) \<and>
                     sorted (mat_columns m) \<and> distinct (mat_columns m))"
proof -
  have h1: "mset (data \<lparr>columns = std_columns, data = [scenario_row ''b'', same_pair_row, scenario_row ''a'']\<rparr>) = mset (data \<lparr>columns = std_columns, data = [scenario_row ''a'', scenario_row ''b'', same_pair_row]\<rparr>)"
    by simp
  have h2: "columns \<lparr>columns = std_columns, data = [scenario_row ''b'', same_pair_row, scenario_row ''a'']\<rparr> = columns \<lparr>columns = std_columns, data = [scenario_row ''a'', scenario_row ''b'', same_pair_row]\<rparr>"
    by simp
  have v: "build_mutation_matrix (Some ''length'') True True \<lparr>columns = std_columns, data = [scenario_row ''b'', same_pair_row, scenario_row ''a'']\<rparr>
       = Inr \<lparr>mat_index = [''a'', ''b''], mat_columns = [''LEN2_10_+1''], mat_values = [[1], [1]]\<rparr>"
    by code_simp
  show ?thesis
    using h1 h2 v row_order_invariant[OF h1 h2, of "Some ''length''" True True] by blast
qed

text \<open>
  Claim C10. A record whose motif value is missing gives no event in either allele slot, under
  every configuration (also \<open>ru = None\<close>, where the motif is not part of the label): alone it
  gives an empty long table; in a matrix built from a table that holds the record, every count is
  the number of events that the other records give; and when there are other records, the table
  with the record gives the same result as the table without it.
\<close>

theorem na_motif_suppressed:
  assumes "motif_col (columns df) r = NA"
  shows "df_long ru rl ch (motif_col (columns df)) [r] = []
       \<and> (\<forall>m s l. build_mutation_matrix ru rl ch (df\<lparr>data := before @ r # after\<rparr>) = Inr m
             \<longrightarrow> cell_count m s l
                 = count_list (df_long ru rl ch (motif_col (columns df)) (before @ after)) (s, l))
       \<and> (before @ after \<noteq> []
             \<longrightarrow> build_mutation_matrix ru rl ch (df\<lparr>data := before @ r # after\<rparr>)
                 = build_mutation_matrix ru rl ch (df\<lparr>data := before @ after\<rparr>))"
proof -
  have z: "df_long ru rl ch (motif_col (columns df)) [r] = []"
    by (simp add: df_long_single mutation_type_a_def mutation_type_b_def assms make_feature_na Let_def)
  have ms: "mset (df_long ru rl ch (motif_col (columns df)) (before @ r # after))
      = mset (df_long ru rl ch (motif_col (columns df)) (before @ after))"
    by (simp add: mset_df_long_insert z)
  have c: "cell_count m s l
             = count_list (df_long ru rl ch (motif_col (columns df)) (before @ after)) (s, l)"
    if "build_mutation_matrix ru rl ch (df\<lparr>data := before @ r # after\<rparr>) = Inr m" for m s l
  proof -
    have "cell_count m s l
        = count_list (df_long ru rl ch (motif_col (columns df)) (before @ r # after)) (s, l)"
      using build_cell_count[OF that, of s l] by simp
    also have "\<dots> = count (mset (df_long ru rl ch (motif_col (columns df)) (before @ r # after))) (s, l)"
      by (simp only: count_mset)
    also have "\<dots> = count_list (df_long ru rl ch (motif_col (columns df)) (before @ after)) (s, l)"
      by (simp only: ms count_mset)
    finally show ?thesis .
  qed
  have e: "build_mutation_matrix ru rl ch (df\<lparr>data := before @ r # after\<rparr>)
         = build_mutation_matrix ru rl ch (df\<lparr>data := before @ after\<rparr>)"
    if "before @ after \<noteq> []"
    using ms that by (intro build_mset) simp_all
  from z c e show ?thesis by blast
qed

theorem na_motif_suppressed_witness:
  "motif_col (columns \<lparr>columns = std_columns, data = []\<rparr>) na_motif_row = NA
   \<and> df_long None True False (motif_col (columns \<lparr>columns = std_columns, data = []\<rparr>)) [na_motif_row] = []
   \<and> build_mutation_matrix None True False
        (\<lparr>columns = std_columns, data = []\<rparr>\<lparr>data := [scenario_row ''s2''] @ na_motif_row # []\<rparr>)
       = Inr \<lparr>mat_index = [''s2''], mat_columns = [''10'', ''8''], mat_values = [[1, 1]]\<rparr>
   \<and> cell_count \<lparr>mat_index = [''s2''], mat_columns = [''10'', ''8''], mat_values = [[1, 1]]\<rparr>
         ''s2'' ''8''
       = count_list (df_long None True False
           (motif_col (columns \<lparr>columns = std_columns, data = []\<rparr>)) ([scenario_row ''s2''] @ []))
           (''s2'', ''8'')
   \<and> [scenario_row ''s2''] @ [] \<noteq> []
   \<and> build_mutation_matrix None True False
        (\<lparr>columns = std_columns, data = []\<rparr>\<lparr>data := [scenario_row ''s2''] @ na_motif_row # []\<rparr>)
       = build_mutation_matrix None True False
        (\<lparr>columns = std_columns, data = []\<rparr>\<lparr>data := [scenario_row ''s2''] @ []\<rparr>)
   \<and> build_mutation_matrix None True False \<lparr>columns = std_columns, data = [na_motif_row]\<rparr>
       = Inr empty_matrix"
proof -
  have h: "motif_col (columns \<lparr>columns = std_columns, data = []\<rparr>) na_motif_row = NA"
    by code_simp
  have v: "build_mutation_matrix None True False
        (\<lparr>columns = std_columns, data = []\<rparr>\<lparr>data := [scenario_row ''s2''] @ na_motif_row # []\<rparr>)
       = Inr \<lparr>mat_index = [''s2''], mat_columns = [''10'', ''8''], mat_values = [[1, 1]]\<rparr>"
    by code_simp
  have n: "[scenario_row ''s2''] @ [] \<noteq> []"
    by simp
  have o: "build_mutation_matrix None True False \<lparr>columns = std_columns, data = [na_motif_row]\<rparr>
       = Inr empty_matrix"
    by code_simp
  show ?thesis
    using h v n o na_motif_suppressed[OF h, of None True False "[scenario_row ''s2'']" "[]"]
    by blast
qed

lemma no_events_empty_matrix:
  assumes "valid_columns (columns df)" and "data df \<noteq> []"
  shows "(ru \<in> {None, Some ''length'', Some ''ru''} \<and>
          df_long ru rl ch (motif_col (columns df)) (data df) = []
            \<longrightarrow> build_mutation_matrix ru rl ch df = Inr empty_matrix)
       \<and> df_long None False False (motif_col (columns df)) (data df) = []
       \<and> build_mutation_matrix None False False df = Inr empty_matrix"
proof -
  have off: "df_long None False False mc rs = []" for mc rs
    by (simp add: df_long_def dropna_def mutation_type_a_def mutation_type_b_def
        make_feature_all_off Let_def)
  show ?thesis
    using build_valid[OF assms(1) _ assms(2)] off by simp
qed

text \<open>
  Claim C6. \<open>build_mutation_matrix\<close> should return an explicitly empty table, and not raise,
  whenever no allele-level event survives suppression, for every input table. The source does so
  on every table that has the required columns and at least one row (lemma
  \<open>no_events_empty_matrix\<close>), but not on a table without rows, which has no event either: there
  the assignment of the derived columns raises \<open>ValueError\<close> before the empty-result branch is
  reached. A table without rows is what \<open>parse_vcf_files\<close> returns when no record is accepted,
  as for the directory below, whose only data line is rejected by FILTER.
\<close>

theorem empty_table_raises:
  "fst (parse_vcf_files ''d'' [(''x.vcf'', [Line ex_header, Line ex_lowq])])
     = \<lparr>columns = std_columns, data = []\<rparr>
   \<and> valid_columns std_columns
   \<and> df_long None False False (motif_col std_columns) [] = []
   \<and> build_mutation_matrix None False False \<lparr>columns = std_columns, data = []\<rparr>
       = Inl ValueError_key_length
   \<and> build_mutation_matrix (Some ''length'') True True \<lparr>columns = std_columns, data = []\<rparr>
       = Inl ValueError_key_length
   \<and> build_mutation_matrix None False False \<lparr>columns = std_columns, data = [same_pair_row]\<rparr>
       = Inr empty_matrix"
  by code_simp

lemma join_snoc:
  "join sep (ps @ [p]) = (if ps = [] then p else join sep ps @ sep @ p)"
  by (induction sep ps rule: join.induct) simp_all

lemma digit_chars:
  "list_all (\<lambda>k::nat. isdecimal_char (char_of (48 + k))) [0, 1, 2, 3, 4, 5, 6, 7, 8, 9]"
  by code_simp

lemma digit_char_decimal:
  fixes k :: nat
  assumes "k < 10"
  shows "isdecimal_char (char_of (48 + k))"
proof -
  from assms have "k \<in> set [0, 1, 2, 3, 4, 5, 6, 7, 8, 9]" by auto
  with digit_chars show ?thesis unfolding list_all_iff by blast
qed

lemma str_nat_decimal: "isdecimal (str_nat n)"
proof (induction n rule: str_nat.induct)
  case (1 n)
  show ?case
  proof (cases "n < 10")
    case True
    then show ?thesis
      by (subst str_nat.simps) (simp add: isdecimal_def digit_char_decimal)
  next
    case False
    have "n mod 10 < 10" by simp
    with False "1.IH" show ?thesis
      by (subst str_nat.simps) (simp add: isdecimal_def digit_char_decimal)
  qed
qed

lemma delta_part_shape:
  "d \<noteq> 0 \<Longrightarrow> delta_part d = (if 0 < d then CHR ''+'' # str_nat (nat d)
                               else CHR ''-'' # str_nat (nat (- d)))"
  by (simp add: delta_part_def str_int_def)

lemma make_feature_change:
  assumes "make_feature ru rl True m refv delta = Some l"
  shows "\<exists>d pre. delta = Some d \<and> d \<noteq> 0 \<and> l = pre @ delta_part d
           \<and> (pre = [] \<or> (\<exists>q. pre = q @ ''_''))"
proof -
  from assms obtain d where d: "delta = Some d" "d \<noteq> 0"
    by (cases delta) (auto simp: make_feature_def split: if_splits)
  define ps where "ps = motif_parts ru m @ (if rl then [str_int (the refv)] else [])"
  from assms d have l: "l = join ''_'' (ps @ [delta_part d])"
    by (auto simp: make_feature_def Let_def ps_def split: if_splits)
  show ?thesis
  proof (cases "ps = []")
    case True
    with l d show ?thesis by (simp add: join_snoc)
  next
    case False
    with l have "l = (join ''_'' ps @ ''_'') @ delta_part d" by (simp add: join_snoc)
    with d show ?thesis by blast
  qed
qed

lemma make_feature_no_delta:
  assumes "make_feature ru rl False m refv delta = Some l"
  shows "(rl \<longrightarrow> refv \<noteq> None)
       \<and> l = join ''_'' (motif_parts ru m @ (if rl then [str_int (the refv)] else []))
       \<and> (\<forall>delta'. make_feature ru rl False m refv delta' = Some l)"
  using assms by (auto simp: make_feature_def Let_def split: if_splits)

lemma str_int_decimal: "0 \<le> rv \<Longrightarrow> isdecimal (str_int rv)"
  by (simp add: str_int_def str_nat_decimal)

lemma df_long_set:
  assumes "(s, l) \<in> set (df_long ru rl ch mc rs)"
  shows "\<exists>r\<in>set rs. mutation_type_a ru rl ch mc r = Some l \<or> mutation_type_b ru rl ch mc r = Some l"
  using assms by (auto simp: df_long_def dropna_def split: option.splits)

lemma build_columns:
  assumes "build_mutation_matrix ru rl ch df = Inr m" and "l \<in> set (mat_columns m)"
  shows "\<exists>s. (s, l) \<in> set (df_long ru rl ch (motif_col (columns df)) (data df))"
proof -
  define ev where "ev = df_long ru rl ch (motif_col (columns df)) (data df)"
  have "(if ev = [] then Inr empty_matrix else Inr (mutation_counts ev)) = (Inr m :: error + matrix)"
    using assms(1) unfolding build_mutation_matrix_def Let_def ev_def
    by (simp split: if_splits)
  then have "m = empty_matrix \<or> m = mutation_counts ev"
    by (cases "ev = []") auto
  with assms(2) have "l \<in> snd ` set ev"
    by (auto simp: empty_matrix_def mutation_counts_def Let_def)
  then show ?thesis unfolding ev_def by force
qed

text \<open>
  Claim C7. Every column label \<open>l\<close> of a matrix returned by \<open>build_mutation_matrix\<close>: with
  \<open>change = True\<close>, \<open>l\<close> ends in the rendering of a non-zero delta \<open>d\<close> of some record of the
  table, either alone or after an underscore, and that rendering is a plus sign followed by the
  decimal digits of \<open>d\<close> when \<open>d\<close> is positive, and the plain rendering of the integer (its minus
  sign followed by the digits of its absolute value) when \<open>d\<close> is negative; with
  \<open>change = False\<close>, \<open>l\<close> is the label of some record made of its motif part and of the
  rendering of its reference length (the smaller or the larger normal allele) only, it is the
  same whatever the delta of the record is, and the reference part is plain decimal digits
  whenever the reference length is not negative.
\<close>

theorem change_labels_signed:
  assumes "build_mutation_matrix ru rl ch df = Inr m" and "l \<in> set (mat_columns m)"
  shows "(ch \<longrightarrow>
           (\<exists>d pre. d \<noteq> 0 \<and> l = pre @ delta_part d
              \<and> (pre = [] \<or> (\<exists>q. pre = q @ ''_''))
              \<and> delta_part d = (if 0 < d then CHR ''+'' # str_nat (nat d)
                                 else CHR ''-'' # str_nat (nat (- d)))
              \<and> isdecimal (str_nat (nat \<bar>d\<bar>))
              \<and> (\<exists>r\<in>set (data df). change_a (compute_allele_changes r) = Some d
                                     \<or> change_b (compute_allele_changes r) = Some d)))
       \<and> (\<not> ch \<longrightarrow>
           (\<exists>r\<in>set (data df). \<exists>refv.
              (refv = ref_a (compute_allele_changes r) \<or> refv = ref_b (compute_allele_changes r))
              \<and> (rl \<longrightarrow> refv \<noteq> None)
              \<and> l = join ''_'' (motif_parts ru (motif_col (columns df) r)
                                @ (if rl then [str_int (the refv)] else []))
              \<and> (\<forall>delta. make_feature ru rl False (motif_col (columns df) r) refv delta = Some l)
              \<and> (\<forall>rv. refv = Some rv \<and> 0 \<le> rv \<longrightarrow> isdecimal (str_int rv))))"
proof -
  from build_columns[OF assms] obtain s where
    "(s, l) \<in> set (df_long ru rl ch (motif_col (columns df)) (data df))" by blast
  from df_long_set[OF this] obtain r where r: "r \<in> set (data df)"
    and ab: "mutation_type_a ru rl ch (motif_col (columns df)) r = Some l
           \<or> mutation_type_b ru rl ch (motif_col (columns df)) r = Some l"
    by blast
  from ab obtain refv delta where
    mf: "make_feature ru rl ch (motif_col (columns df) r) refv delta = Some l"
    and dl: "delta = change_a (compute_allele_changes r) \<or> delta = change_b (compute_allele_changes r)"
    and rf: "refv = ref_a (compute_allele_changes r) \<or> refv = ref_b (compute_allele_changes r)"
    by (auto simp: mutation_type_a_def mutation_type_b_def Let_def)
  show ?thesis
  proof (cases ch)
    case True
    with mf have mf': "make_feature ru rl True (motif_col (columns df) r) refv delta = Some l"
      by simp
    from make_feature_change[OF mf'] obtain d pre where
      d: "delta = Some d" "d \<noteq> 0" "l = pre @ delta_part d"
      "pre = [] \<or> (\<exists>q. pre = q @ ''_'')"
      by blast
    have "change_a (compute_allele_changes r) = Some d \<or> change_b (compute_allele_changes r) = Some d"
      using dl d(1) by auto
    with r d delta_part_shape[OF d(2)] str_nat_decimal[of "nat \<bar>d\<bar>"] True show ?thesis
      by blast
  next
    case False
    with mf have mf': "make_feature ru rl False (motif_col (columns df) r) refv delta = Some l"
      by simp
    note nd = make_feature_no_delta[OF mf']
    have "(refv = ref_a (compute_allele_changes r) \<or> refv = ref_b (compute_allele_changes r))
              \<and> (rl \<longrightarrow> refv \<noteq> None)
              \<and> l = join ''_'' (motif_parts ru (motif_col (columns df) r)
                                @ (if rl then [str_int (the refv)] else []))
              \<and> (\<forall>delta. make_feature ru rl False (motif_col (columns df) r) refv delta = Some l)
              \<and> (\<forall>rv. refv = Some rv \<and> 0 \<le> rv \<longrightarrow> isdecimal (str_int rv))"
      using rf nd str_int_decimal by blast
    with r False show ?thesis by blast
  qed
qed

theorem change_labels_signed_witness:
  "build_mutation_matrix (Some ''length'') True True \<lparr>columns = std_columns, data = [scenario_row ''a'']\<rparr>
     = Inr \<lparr>mat_index = [''a''], mat_columns = [''LEN2_10_+1''], mat_values = [[1]]\<rparr>
   \<and> ''LEN2_10_+1'' \<in> set (mat_columns \<lparr>mat_index = [''a''], mat_columns = [''LEN2_10_+1''], mat_values = [[1]]\<rparr>)
   \<and> (\<exists>d pre. d \<noteq> 0 \<and> ''LEN2_10_+1'' = pre @ delta_part d
              \<and> (pre = [] \<or> (\<exists>q. pre = q @ ''_''))
              \<and> delta_part d = (if 0 < d then CHR ''+'' # str_nat (nat d)
                                 else CHR ''-'' # str_nat (nat (- d)))
              \<and> isdecimal (str_nat (nat \<bar>d\<bar>))
              \<and> (\<exists>r\<in>set (data \<lparr>columns = std_columns, data = [scenario_row ''a'']\<rparr>). change_a (compute_allele_changes r) = Some d
                                     \<or> change_b (compute_allele_changes r) = Some d))
   \<and> build_mutation_matrix (Some ''length'') True False \<lparr>columns = std_columns, data = [scenario_row ''a'']\<rparr>
     = Inr \<lparr>mat_index = [''a''], mat_columns = [''LEN2_10'', ''LEN2_8''], mat_values = [[1, 1]]\<rparr>
   \<and> ''LEN2_10'' \<in> set (mat_columns \<lparr>mat_index = [''a''], mat_columns = [''LEN2_10'', ''LEN2_8''], mat_values = [[1, 1]]\<rparr>)
   \<and> (\<exists>r\<in>set (data \<lparr>columns = std_columns, data = [scenario_row ''a'']\<rparr>). \<exists>refv.
          (refv = ref_a (compute_allele_changes r) \<or> refv = ref_b (compute_allele_changes r))
          \<and> ''LEN2_10'' = join ''_'' (motif_parts (Some ''length'')
                  (motif_col (columns \<lparr>columns = std_columns, data = [scenario_row ''a'']\<rparr>) r)
                              @ (if True then [str_int (the refv)] else []))
          \<and> (\<forall>delta. make_feature (Some ''length'') True False
                  (motif_col (columns \<lparr>columns = std_columns, data = [scenario_row ''a'']\<rparr>) r)
                  refv delta = Some ''LEN2_10''))"
proof -
  have h1: "build_mutation_matrix (Some ''length'') True True \<lparr>columns = std_columns, data = [scenario_row ''a'']\<rparr>
     = Inr \<lparr>mat_index = [''a''], mat_columns = [''LEN2_10_+1''], mat_values = [[1]]\<rparr>"
    by code_simp
  have h2: "''LEN2_10_+1'' \<in> set (mat_columns \<lparr>mat_index = [''a''], mat_columns = [''LEN2_10_+1''], mat_values = [[1]]\<rparr>)"
    by simp
  have k1: "build_mutation_matrix (Some ''length'') True False \<lparr>columns = std_columns, data = [scenario_row ''a'']\<rparr>
     = Inr \<lparr>mat_index = [''a''], mat_columns = [''LEN2_10'', ''LEN2_8''], mat_values = [[1, 1]]\<rparr>"
    by code_simp
  have k2: "''LEN2_10'' \<in> set (mat_columns \<lparr>mat_index = [''a''], mat_columns = [''LEN2_10'', ''LEN2_8''], mat_values = [[1, 1]]\<rparr>)"
    by simp
  show ?thesis
    using h1 h2 k1 k2 change_labels_signed[OF h1 h2] change_labels_signed[OF k1 k2]
    by blast
qed

end
